theory Spec2Isabelle
  imports Complex_Main
begin

section \<open>Python values and exceptions\<close>

text \<open>
  The exceptions that the modelled functions raise or let through. A function that may
  raise returns \<open>pyerr + 'a\<close>, with \<open>Inl\<close> for the exception.
\<close>

datatype pyerr = TypeError | ValueError | AttributeError | IndexError | KeyError
  | LibraryError string

fun first_some :: "('a \<Rightarrow> 'b option) \<Rightarrow> 'a list \<Rightarrow> 'b option" where
  "first_some f [] = None"
| "first_some f (x # xs) = (case f x of Some y \<Rightarrow> Some y | None \<Rightarrow> first_some f xs)"

section \<open>excel.py: the A1 cell-reference parser\<close>

text \<open>
  Strings are lists of \<open>char\<close>, that is of code points below 256. In that range the
  regular expression class \<open>\d\<close> is exactly \<open>0-9\<close>, and \<open>[A-Z]\<close> is the ASCII range.
\<close>

definition is_upper :: "char \<Rightarrow> bool" where
  "is_upper c = (65 \<le> (of_char c :: nat) \<and> (of_char c :: nat) \<le> 90)"

definition is_digit :: "char \<Rightarrow> bool" where
  "is_digit c = (48 \<le> (of_char c :: nat) \<and> (of_char c :: nat) \<le> 57)"

text \<open>
  The pattern \<open>(\$?)([A-Z]{1,3})(\$?)(\d+)\<close>, matched at the start of the string by a
  backtracking matcher. Each piece lists the ways it can match, the preferred (greedy)
  one first; \<open>re_match\<close> returns groups 2 and 4 of the first way that matches the whole
  pattern, and \<open>None\<close> where \<open>re.match\<close> returns \<open>None\<close>.
\<close>

definition opt_dollar :: "string \<Rightarrow> string list" where
  "opt_dollar s = (case s of [] \<Rightarrow> [s] | c # t \<Rightarrow> if c = CHR ''$'' then [t, s] else [s])"

definition letters_1_3 :: "string \<Rightarrow> (string \<times> string) list" where
  "letters_1_3 s =
     map (\<lambda>k. (take k s, drop k s))
       (filter (\<lambda>k. k \<le> length s \<and> list_all is_upper (take k s)) [3, 2, 1])"

definition digits_plus :: "string \<Rightarrow> (string \<times> string) list" where
  "digits_plus s =
     map (\<lambda>k. (take k s, drop k s)) (rev [1 ..< Suc (length (takeWhile is_digit s))])"

definition re_match :: "string \<Rightarrow> (string \<times> string) option" where
  "re_match s =
     first_some (\<lambda>s1.
       first_some (\<lambda>(col_str, s2).
         first_some (\<lambda>s3.
           first_some (\<lambda>(row_str, s4). Some (col_str, row_str)) (digits_plus s3))
           (opt_dollar s2))
         (letters_1_3 s1))
       (opt_dollar s)"

text \<open>
  The loop \<open>for char in reversed(col_str): col += (ord(char) - ord("A") + 1) * (26 ** expn);
  expn += 1\<close>, with the loop state \<open>(expn, col)\<close> passed along.
\<close>

fun col_loop :: "string \<Rightarrow> nat \<Rightarrow> int \<Rightarrow> int" where
  "col_loop [] expn col = col"
| "col_loop (char # chars) expn col =
     col_loop chars (expn + 1)
       (col + (int (of_char char) - int (of_char CHR ''A'') + 1) * 26 ^ expn)"

text \<open>\<open>int(row_str)\<close> on a string of decimal digits.\<close>

definition digit_val :: "char \<Rightarrow> int" where
  "digit_val c = int (of_char c) - 48"

definition int_of_digits :: "string \<Rightarrow> int" where
  "int_of_digits s = foldl (\<lambda>a c. 10 * a + digit_val c) 0 s"

definition xl_cell_to_rowcol :: "string \<Rightarrow> pyerr + (int \<times> int)" where
  "xl_cell_to_rowcol cell_str =
     (if cell_str = [] then Inr (0, 0)
      else case re_match cell_str of
        None \<Rightarrow> Inl AttributeError
      | Some (col_str, row_str) \<Rightarrow>
          (let col = col_loop (rev col_str) 0 0;
               row = int_of_digits row_str - 1
           in Inr (row, col - 1)))"

text \<open>
  The reading of a column label the specification gives: a base-26 numeral whose digits
  are the letters, with A = 1 up to Z = 26, most significant letter first.
\<close>

definition letter_value :: "char \<Rightarrow> int" where
  "letter_value c = int (of_char c) - 64"

definition base26 :: "string \<Rightarrow> int" where
  "base26 L = foldl (\<lambda>a c. 26 * a + letter_value c) 0 L"

definition dollar :: "bool \<Rightarrow> string" where
  "dollar b = (if b then ''$'' else [])"

section \<open>excel.py: values, cell references and the library objects\<close>

text \<open>
  The values a cell can hold. Dates and datetimes carry an abstract time stamp; the
  functions below only test for them and pass them on.
\<close>

datatype pyval = VNone | VBool bool | VInt int | VFloat real | VStr string
  | VDatetime int | VDate int

text \<open>\<open>bool(x)\<close>: the truth value of an object.\<close>

fun py_bool :: "pyval \<Rightarrow> bool" where
  "py_bool VNone = False"
| "py_bool (VBool b) = b"
| "py_bool (VInt i) = (i \<noteq> 0)"
| "py_bool (VFloat x) = (x \<noteq> 0)"
| "py_bool (VStr s) = (s \<noteq> [])"
| "py_bool (VDatetime t) = True"
| "py_bool (VDate t) = True"

text \<open>\<open>isinstance(value, (dt.datetime, dt.date))\<close>\<close>

fun is_date :: "pyval \<Rightarrow> bool" where
  "is_date (VDatetime t) = True"
| "is_date (VDate t) = True"
| "is_date v = False"

text \<open>
  A corner of a range: a string such as \<open>"A1"\<close>, or a tuple of 1-based row and column.
\<close>

datatype cell_ref = A1 string | RC int int

text \<open>\<open>range(a, b)\<close> over the integers.\<close>

definition py_range :: "int \<Rightarrow> int \<Rightarrow> int list" where
  "py_range a b = [a .. b - 1]"

text \<open>\<open>enumerate(xs)\<close>\<close>

definition enumerate_py :: "'a list \<Rightarrow> (int \<times> 'a) list" where
  "enumerate_py xs = zip (map int [0 ..< length xs]) xs"

text \<open>Running a loop body over a list, stopping at the first exception.\<close>

fun mapM_err :: "('a \<Rightarrow> 'e + 'b) \<Rightarrow> 'a list \<Rightarrow> 'e + 'b list" where
  "mapM_err f [] = Inr []"
| "mapM_err f (x # xs) =
     (case f x of
        Inl e \<Rightarrow> Inl e
      | Inr y \<Rightarrow> (case mapM_err f xs of Inl e \<Rightarrow> Inl e | Inr ys \<Rightarrow> Inr (y # ys)))"

text \<open>
  \<open>itertools.islice(iterable, start, stop)\<close>, where \<open>stop\<close> may be \<open>None\<close>: it refuses
  negative bounds with a ValueError when it is built. \<open>xs[lo:hi]\<close> is a slice, in which a
  negative bound counts from the end and every bound is clipped to the list.
\<close>

definition islice :: "'a list \<Rightarrow> int \<Rightarrow> int option \<Rightarrow> pyerr + 'a list" where
  "islice xs start stop =
     (if start < 0 \<or> (case stop of None \<Rightarrow> False | Some e \<Rightarrow> e < 0) then Inl ValueError
      else Inr (drop (nat start) (case stop of None \<Rightarrow> xs | Some e \<Rightarrow> take (nat e) xs)))"

definition slice_bound :: "nat \<Rightarrow> int \<Rightarrow> nat" where
  "slice_bound n i = (if i < 0 then nat (max (i + int n) 0) else min (nat i) n)"

definition py_slice :: "'a list \<Rightarrow> int \<Rightarrow> int option \<Rightarrow> 'a list" where
  "py_slice xs lo hi =
     drop (slice_bound (length xs) lo)
       (take (case hi of None \<Rightarrow> length xs | Some h \<Rightarrow> slice_bound (length xs) h) xs)"

text \<open>
  An xlrd sheet, as far as \<open>read\<close> looks at it: \<open>sheet.nrows\<close>, \<open>sheet.ncols\<close>,
  \<open>sheet.cell(r, c)\<close> with its \<open>ctype\<close> and \<open>value\<close>, and \<open>sheet.book.datemode\<close>.
\<close>

datatype xl_ctype = XL_CELL_EMPTY | XL_CELL_TEXT | XL_CELL_NUMBER | XL_CELL_DATE
  | XL_CELL_BOOLEAN | XL_CELL_ERROR | XL_CELL_BLANK

record xlrd_cell =
  ctype :: xl_ctype
  cvalue :: pyval

record xlrd_sheet =
  nrows :: int
  ncols :: int
  cell :: "int \<Rightarrow> int \<Rightarrow> pyerr + xlrd_cell"
  book_datemode :: int

text \<open>
  An openpyxl worksheet: \<open>sheet.max_row\<close>, \<open>sheet.max_column\<close> and
  \<open>sheet.iter_rows(min_row, min_col, max_row, max_col, values_only=True)\<close>.
\<close>

record openpyxl_sheet =
  max_row :: int
  max_column :: int
  iter_rows :: "int \<Rightarrow> int \<Rightarrow> int \<Rightarrow> int \<Rightarrow> pyerr + pyval list list"

text \<open>A pyxlsb worksheet: \<open>sheet.rows()\<close> yields lists of cells \<open>(r, c, v)\<close>.\<close>

record pyxlsb_cell =
  cell_r :: int
  cell_c :: int
  cell_v :: pyval

record pyxlsb_sheet =
  rows :: "pyxlsb_cell list list"

text \<open>
  The objects that \<open>read\<close> and \<open>write\<close> tell apart with \<open>isinstance\<close>. A workbook that
  openpyxl opens with \<open>read_only=True\<close> or \<open>write_only=True\<close> has worksheets of classes
  of their own, which are not subclasses of its \<open>Worksheet\<close>.
\<close>

datatype sheet =
    XlrdSheet xlrd_sheet
  | OpenpyxlWorksheet openpyxl_sheet
  | OpenpyxlReadOnlyWorksheet openpyxl_sheet
  | OpenpyxlWriteOnlyWorksheet
  | PyxlsbWorksheet pyxlsb_sheet
  | XlsxwriterWorksheet
  | XlwtWorksheet
  | OtherObject string

text \<open>
  What a call on a writable sheet does to it is the library's business; the model records
  the calls that \<open>write\<close> makes, in order: \<open>sheet.cell(row=r, column=c)\<close>, the assignments
  to \<open>cell.value\<close> and \<open>cell.number_format\<close> (openpyxl), \<open>sheet.write_row(r, c, data)\<close>
  (xlsxwriter) and \<open>sheet.write(r, c, label[, style])\<close> (xlwt, the style given by its
  number format).
\<close>

datatype lib_call =
    GetCell int int
  | SetValue int int pyval
  | SetNumberFormat int int string
  | WriteRow int int "pyval list"
  | XlwtWrite int int pyval "string option"

text \<open>
  The functions of the libraries that the module calls: \<open>xlrd.xldate.xldate_as_datetime\<close>,
  the dictionary \<open>xlrd.biffh.error_text_from_code\<close>, \<open>openpyxl.utils.coordinate_to_tuple\<close>,
  \<open>xlwt.Utils.cell_to_rowcol2\<close>, \<open>xlwt.easyxf\<close> (which returns a style, here named by its
  format string), and which calls on a writable sheet raise.
\<close>

record libs =
  xldate_as_datetime :: "pyval \<Rightarrow> int \<Rightarrow> pyerr + pyval"
  error_text_from_code :: "pyval \<Rightarrow> string option"
  coordinate_to_tuple :: "string \<Rightarrow> pyerr + (int \<times> int)"
  cell_to_rowcol2 :: "string \<Rightarrow> pyerr + (int \<times> int)"
  easyxf :: "string \<Rightarrow> pyerr + string"
  call_raises :: "lib_call \<Rightarrow> pyerr option"

section \<open>excel.py: read\<close>

text \<open>
  The xlrd branch. \<open>xlrd_cell_value\<close> is the body of the inner loop: the chain of tests
  on \<open>sheet.cell(r, c).ctype\<close>.
\<close>

definition xlrd_cell_value :: "libs \<Rightarrow> xlrd_sheet \<Rightarrow> int \<Rightarrow> int \<Rightarrow> pyerr + pyval" where
  "xlrd_cell_value lib sh r c =
     (case cell sh r c of
        Inl e \<Rightarrow> Inl e
      | Inr x \<Rightarrow>
          if ctype x = XL_CELL_DATE then xldate_as_datetime lib (cvalue x) (book_datemode sh)
          else if ctype x \<in> set [XL_CELL_EMPTY, XL_CELL_BLANK] then Inr VNone
          else if ctype x = XL_CELL_ERROR then
            (case error_text_from_code lib (cvalue x) of
               None \<Rightarrow> Inl KeyError
             | Some text \<Rightarrow> Inr (VStr text))
          else if ctype x = XL_CELL_BOOLEAN then Inr (VBool (py_bool (cvalue x)))
          else Inr (cvalue x))"

text \<open>
  A corner as a tuple of 1-based indices: a tuple is kept, a string goes through
  \<open>xl_cell_to_rowcol\<close> and gets 1 added to both indices.
\<close>

definition one_based :: "cell_ref \<Rightarrow> pyerr + (int \<times> int)" where
  "one_based ref =
     (case ref of
        RC r c \<Rightarrow> Inr (r, c)
      | A1 s \<Rightarrow> (case xl_cell_to_rowcol s of
                  Inl e \<Rightarrow> Inl e
                | Inr (r, c) \<Rightarrow> Inr (r + 1, c + 1)))"

definition read_xlrd ::
  "libs \<Rightarrow> xlrd_sheet \<Rightarrow> cell_ref \<Rightarrow> cell_ref option \<Rightarrow> pyerr + pyval list list" where
  "read_xlrd lib sh first_cell last_cell =
     (let last_cell = (case last_cell of None \<Rightarrow> RC (nrows sh) (ncols sh) | Some l \<Rightarrow> l)
      in case one_based first_cell of
           Inl e \<Rightarrow> Inl e
         | Inr first_rc \<Rightarrow>
             (case one_based last_cell of
                Inl e \<Rightarrow> Inl e
              | Inr last_rc \<Rightarrow>
                  mapM_err (\<lambda>r. mapM_err (\<lambda>c. xlrd_cell_value lib sh r c)
                                  (py_range (snd first_rc - 1) (snd last_rc)))
                    (py_range (fst first_rc - 1) (fst last_rc))))"

text \<open>The openpyxl branch.\<close>

definition openpyxl_corner :: "libs \<Rightarrow> cell_ref \<Rightarrow> pyerr + (int \<times> int)" where
  "openpyxl_corner lib ref =
     (case ref of RC r c \<Rightarrow> Inr (r, c) | A1 s \<Rightarrow> coordinate_to_tuple lib s)"

definition read_openpyxl ::
  "libs \<Rightarrow> openpyxl_sheet \<Rightarrow> cell_ref \<Rightarrow> cell_ref option \<Rightarrow> pyerr + pyval list list" where
  "read_openpyxl lib sh first_cell last_cell =
     (let last_cell = (case last_cell of None \<Rightarrow> RC (max_row sh) (max_column sh) | Some l \<Rightarrow> l)
      in case openpyxl_corner lib first_cell of
           Inl e \<Rightarrow> Inl e
         | Inr first_rc \<Rightarrow>
             (case openpyxl_corner lib last_cell of
                Inl e \<Rightarrow> Inl e
              | Inr last_rc \<Rightarrow> iter_rows sh (fst first_rc) (snd first_rc) (fst last_rc) (snd last_rc)))"

text \<open>
  The pyxlsb branch. \<open>errors_get v\<close> is \<open>errors.get(v, v)\<close> on the dictionary of the
  seven error codes. An empty string as \<open>last_cell\<close> is falsy: it is neither converted
  nor used as a bound.
\<close>

definition errors :: "(string \<times> string) list" where
  "errors = [(''0x0'', ''#NULL!''), (''0x7'', ''#DIV/0!''), (''0xf'', ''#VALUE!''),
             (''0x17'', ''#REF!''), (''0x1d'', ''#NAME?''), (''0x24'', ''#NUM!''),
             (''0x2a'', ''#N/A'')]"

definition errors_get :: "pyval \<Rightarrow> pyval" where
  "errors_get v =
     (case v of
        VStr s \<Rightarrow> (case map_of errors s of None \<Rightarrow> v | Some text \<Rightarrow> VStr text)
      | _ \<Rightarrow> v)"

definition pyxlsb_last :: "cell_ref option \<Rightarrow> pyerr + (int \<times> int) option" where
  "pyxlsb_last last_cell =
     (case last_cell of
        None \<Rightarrow> Inr None
      | Some (RC r c) \<Rightarrow> Inr (Some (r, c))
      | Some (A1 s) \<Rightarrow>
          if s = [] then Inr None
          else (case one_based (A1 s) of Inl e \<Rightarrow> Inl e | Inr l \<Rightarrow> Inr (Some l)))"

definition read_pyxlsb ::
  "pyxlsb_sheet \<Rightarrow> cell_ref \<Rightarrow> cell_ref option \<Rightarrow> pyerr + pyval list list" where
  "read_pyxlsb sh first_cell last_cell =
     (case one_based first_cell of
        Inl e \<Rightarrow> Inl e
      | Inr first_rc \<Rightarrow>
          (case pyxlsb_last last_cell of
             Inl e \<Rightarrow> Inl e
           | Inr last_rc \<Rightarrow>
               (case islice (rows sh) (fst first_rc - 1) (map_option fst last_rc) of
                  Inl e \<Rightarrow> Inl e
                | Inr rs \<Rightarrow>
                    Inr (map (\<lambda>row. py_slice (map (\<lambda>cell. errors_get (cell_v cell)) row)
                                       (snd first_rc - 1) (map_option snd last_rc)) rs))))"

definition read ::
  "libs \<Rightarrow> sheet \<Rightarrow> cell_ref \<Rightarrow> cell_ref option \<Rightarrow> pyerr + pyval list list" where
  "read lib sheet first_cell last_cell =
     (case sheet of
        XlrdSheet sh \<Rightarrow> read_xlrd lib sh first_cell last_cell
      | OpenpyxlWorksheet sh \<Rightarrow> read_openpyxl lib sh first_cell last_cell
      | OpenpyxlReadOnlyWorksheet sh \<Rightarrow> read_openpyxl lib sh first_cell last_cell
      | PyxlsbWorksheet sh \<Rightarrow> read_pyxlsb sh first_cell last_cell
      | _ \<Rightarrow> Inl TypeError)"

section \<open>excel.py: write\<close>

text \<open>
  The calls are made one after the other until one raises: \<open>run_calls\<close> returns the calls
  that were completed and the exception, if any, that ended them.
\<close>

fun run_calls :: "(lib_call \<Rightarrow> pyerr option) \<Rightarrow> lib_call list \<Rightarrow> lib_call list \<times> pyerr option" where
  "run_calls raises [] = ([], None)"
| "run_calls raises (call # calls) =
     (case raises call of
        Some e \<Rightarrow> ([], Some e)
      | None \<Rightarrow> (case run_calls raises calls of (completed, r) \<Rightarrow> (call # completed, r)))"

text \<open>
  The openpyxl branch: for each value, the cell is fetched, its value assigned, and its
  number format set when \<open>date_format\<close> is truthy and the value is a date.
\<close>

definition openpyxl_calls :: "int \<times> int \<Rightarrow> string \<Rightarrow> pyval list list \<Rightarrow> lib_call list" where
  "openpyxl_calls first_rc date_format values =
     concat (map (\<lambda>(i, row).
       concat (map (\<lambda>(j, v).
         [GetCell (fst first_rc + i) (snd first_rc + j),
          SetValue (fst first_rc + i) (snd first_rc + j) v]
         @ (if date_format \<noteq> [] \<and> is_date v
            then [SetNumberFormat (fst first_rc + i) (snd first_rc + j) date_format] else []))
         (enumerate_py row)))
       (enumerate_py values))"

text \<open>The xlsxwriter branch: one \<open>write_row\<close> for each row of the values.\<close>

definition xlsxwriter_calls :: "int \<times> int \<Rightarrow> pyval list list \<Rightarrow> lib_call list" where
  "xlsxwriter_calls first_rc values =
     map (\<lambda>(r, row_data). WriteRow (fst first_rc + r) (snd first_rc) row_data)
       (enumerate_py values)"

text \<open>The xlwt branch: one \<open>write\<close> for each value, with the date style for a date.\<close>

definition xlwt_calls :: "int \<times> int \<Rightarrow> string \<Rightarrow> pyval list list \<Rightarrow> lib_call list" where
  "xlwt_calls first_rc date_format values =
     concat (map (\<lambda>(i, row).
       map (\<lambda>(j, v).
         if is_date v then XlwtWrite (i + fst first_rc) (j + snd first_rc) v (Some date_format)
         else XlwtWrite (i + fst first_rc) (j + snd first_rc) v None)
         (enumerate_py row))
       (enumerate_py values))"

text \<open>A corner as a tuple of 0-based indices, for xlsxwriter and xlwt.\<close>

definition zero_based :: "cell_ref \<Rightarrow> pyerr + (int \<times> int)" where
  "zero_based ref =
     (case ref of RC r c \<Rightarrow> Inr (r - 1, c - 1) | A1 s \<Rightarrow> xl_cell_to_rowcol s)"

text \<open>
  \<open>write\<close>, here \<open>write_sheet\<close>, returns the calls it completed on the sheet and the exception it raised, if
  any.
\<close>

definition write_sheet ::
  "libs \<Rightarrow> sheet \<Rightarrow> pyval list list \<Rightarrow> cell_ref \<Rightarrow> string option
     \<Rightarrow> lib_call list \<times> pyerr option" where
  "write_sheet lib sheet values first_cell date_format =
     (case sheet of
        OpenpyxlWorksheet sh \<Rightarrow>
          (let date_format = (case date_format of None \<Rightarrow> ''mm/dd/yy'' | Some f \<Rightarrow> f)
           in case openpyxl_corner lib first_cell of
                Inl e \<Rightarrow> ([], Some e)
              | Inr first_rc \<Rightarrow>
                  run_calls (call_raises lib) (openpyxl_calls first_rc date_format values))
      | XlsxwriterWorksheet \<Rightarrow>
          (if date_format \<noteq> None then ([], Some ValueError)
           else case zero_based first_cell of
                  Inl e \<Rightarrow> ([], Some e)
                | Inr first_rc \<Rightarrow>
                    run_calls (call_raises lib) (xlsxwriter_calls first_rc values))
      | XlwtWorksheet \<Rightarrow>
          (let date_format = (case date_format of None \<Rightarrow> ''mm/dd/yy'' | Some f \<Rightarrow> f)
           in case easyxf lib date_format of
                Inl e \<Rightarrow> ([], Some e)
              | Inr style \<Rightarrow>
                  (case zero_based first_cell of
                     Inl e \<Rightarrow> ([], Some e)
                   | Inr first_rc \<Rightarrow>
                       run_calls (call_raises lib) (xlwt_calls first_rc style values)))
      | _ \<Rightarrow> ([], Some TypeError))"

text \<open>Which objects each function accepts, by their class.\<close>

fun read_accepts :: "sheet \<Rightarrow> bool" where
  "read_accepts (XlrdSheet sh) = True"
| "read_accepts (OpenpyxlWorksheet sh) = True"
| "read_accepts (OpenpyxlReadOnlyWorksheet sh) = True"
| "read_accepts (PyxlsbWorksheet sh) = True"
| "read_accepts sheet = False"

fun write_accepts :: "sheet \<Rightarrow> bool" where
  "write_accepts (OpenpyxlWorksheet sh) = True"
| "write_accepts XlsxwriterWorksheet = True"
| "write_accepts XlwtWorksheet = True"
| "write_accepts sheet = False"

text \<open>
  The worksheets by the library that made them, whatever their class: the reading of
  ``an openpyxl, xlsxwriter, or xlwt worksheet'' that counts every worksheet of openpyxl.
\<close>

fun made_by_openpyxl :: "sheet \<Rightarrow> bool" where
  "made_by_openpyxl (OpenpyxlWorksheet sh) = True"
| "made_by_openpyxl (OpenpyxlReadOnlyWorksheet sh) = True"
| "made_by_openpyxl OpenpyxlWriteOnlyWorksheet = True"
| "made_by_openpyxl sheet = False"

definition openpyxl_xlsxwriter_or_xlwt :: "sheet \<Rightarrow> bool" where
  "openpyxl_xlsxwriter_or_xlwt sheet =
     (made_by_openpyxl sheet \<or> sheet = XlsxwriterWorksheet \<or> sheet = XlwtWorksheet)"

text \<open>The library functions of an environment raise no TypeError of their own.\<close>

definition no_library_TypeError :: "libs \<Rightarrow> bool" where
  "no_library_TypeError lib =
     ((\<forall>v m. xldate_as_datetime lib v m \<noteq> Inl TypeError)
      \<and> (\<forall>s. coordinate_to_tuple lib s \<noteq> Inl TypeError)
      \<and> (\<forall>s. easyxf lib s \<noteq> Inl TypeError)
      \<and> (\<forall>call. call_raises lib call \<noteq> Some TypeError))"

fun sheet_no_TypeError :: "sheet \<Rightarrow> bool" where
  "sheet_no_TypeError (XlrdSheet sh) = (\<forall>r c. cell sh r c \<noteq> Inl TypeError)"
| "sheet_no_TypeError (OpenpyxlWorksheet sh) =
     (\<forall>r1 c1 r2 c2. iter_rows sh r1 c1 r2 c2 \<noteq> Inl TypeError)"
| "sheet_no_TypeError (OpenpyxlReadOnlyWorksheet sh) =
     (\<forall>r1 c1 r2 c2. iter_rows sh r1 c1 r2 c2 \<noteq> Inl TypeError)"
| "sheet_no_TypeError sheet = True"

section \<open>ch05/excel.py: the xlrd branch of read\<close>

text \<open>
  The older copy of the module converts a string corner with \<open>xlwt.Utils.cell_to_rowcol2\<close>
  and tests the cell type for date, empty and error only.
\<close>

definition ch05_xlrd_cell_value :: "libs \<Rightarrow> xlrd_sheet \<Rightarrow> int \<Rightarrow> int \<Rightarrow> pyerr + pyval" where
  "ch05_xlrd_cell_value lib sh r c =
     (case cell sh r c of
        Inl e \<Rightarrow> Inl e
      | Inr x \<Rightarrow>
          if ctype x = XL_CELL_DATE then xldate_as_datetime lib (cvalue x) (book_datemode sh)
          else if ctype x = XL_CELL_EMPTY then Inr VNone
          else if ctype x = XL_CELL_ERROR then
            (case error_text_from_code lib (cvalue x) of
               None \<Rightarrow> Inl KeyError
             | Some text \<Rightarrow> Inr (VStr text))
          else Inr (cvalue x))"

definition ch05_one_based :: "libs \<Rightarrow> cell_ref \<Rightarrow> pyerr + (int \<times> int)" where
  "ch05_one_based lib ref =
     (case ref of
        RC r c \<Rightarrow> Inr (r, c)
      | A1 s \<Rightarrow> (case cell_to_rowcol2 lib s of
                  Inl e \<Rightarrow> Inl e
                | Inr (r, c) \<Rightarrow> Inr (r + 1, c + 1)))"

definition ch05_read_xlrd ::
  "libs \<Rightarrow> xlrd_sheet \<Rightarrow> cell_ref \<Rightarrow> cell_ref option \<Rightarrow> pyerr + pyval list list" where
  "ch05_read_xlrd lib sh first_cell last_cell =
     (let last_cell = (case last_cell of None \<Rightarrow> RC (nrows sh) (ncols sh) | Some l \<Rightarrow> l)
      in case ch05_one_based lib first_cell of
           Inl e \<Rightarrow> Inl e
         | Inr first_rc \<Rightarrow>
             (case ch05_one_based lib last_cell of
                Inl e \<Rightarrow> Inl e
              | Inr last_rc \<Rightarrow>
                  mapM_err (\<lambda>r. mapM_err (\<lambda>c. ch05_xlrd_cell_value lib sh r c)
                                  (py_range (snd first_rc - 1) (snd last_rc)))
                    (py_range (fst first_rc - 1) (fst last_rc))))"

section \<open>packagetracker/database.py: store_package\<close>

text \<open>
  The exceptions of the database engine; both classes derive from \<open>Exception\<close>.
\<close>

datatype db_exception = IntegrityError string | OperationalError string

fun is_IntegrityError :: "db_exception \<Rightarrow> bool" where
  "is_IntegrityError (IntegrityError msg) = True"
| "is_IntegrityError e = False"

fun is_Exception :: "db_exception \<Rightarrow> bool" where
  "is_Exception e = True"

text \<open>
  The database as \<open>store_package\<close> sees it: the rows \<open>(package_id, package_name)\<close> of the
  table \<open>packages\<close>, or \<open>None\<close> before \<open>create_db\<close> has made the table, and the failure,
  if any, of \<open>engine.connect()\<close>.
\<close>

record database =
  packages :: "(int \<times> string) list option"
  connect_failure :: "db_exception option"

text \<open>
  The statement \<open>INSERT INTO packages (package_name) VALUES (:package_name)\<close> on the
  table that \<open>create_db\<close> declares: \<open>package_id INTEGER PRIMARY KEY\<close> gets the next
  free number and \<open>UNIQUE(package_name)\<close> refuses a name that is there.
\<close>

definition next_package_id :: "(int \<times> string) list \<Rightarrow> int" where
  "next_package_id table = foldr (\<lambda>row m. max (fst row) m) table 0 + 1"

definition execute_insert :: "database \<Rightarrow> string \<Rightarrow> db_exception + database" where
  "execute_insert db package_name =
     (case connect_failure db of
        Some e \<Rightarrow> Inl e
      | None \<Rightarrow>
          (case packages db of
             None \<Rightarrow> Inl (OperationalError ''no such table: packages'')
           | Some table \<Rightarrow>
               if package_name \<in> set (map snd table)
               then Inl (IntegrityError ''UNIQUE constraint failed: packages.package_name'')
               else Inr (db\<lparr>packages := Some (table @ [(next_package_id table, package_name)])\<rparr>)))"

text \<open>
  \<open>store_package\<close> returns the database it leaves and either the value it returns
  (\<open>None\<close> or a string) or the exception it lets through. \<open>repr\<close> is Python's \<open>repr\<close> on
  an exception.
\<close>

definition store_package ::
  "(db_exception \<Rightarrow> string) \<Rightarrow> database \<Rightarrow> string
     \<Rightarrow> database \<times> (db_exception + string option)" where
  "store_package repr db package_name =
     (case execute_insert db package_name of
        Inr db' \<Rightarrow> (db', Inr None)
      | Inl e \<Rightarrow>
          if is_IntegrityError e then (db, Inr (Some (package_name @ '' already exists'')))
          else if is_Exception e then (db, Inr (Some (repr e)))
          else (db, Inl e))"

section \<open>parallel_openpyxl.py: load_workbook\<close>

text \<open>
  A workbook is the list of its sheets with their titles. \<open>open_book\<close> stands for
  \<open>openpyxl.load_workbook(filename, read_only=True, data_only=True)\<close>, and
  \<open>book_getitem\<close> for \<open>book[sheetname]\<close>, which looks the sheet up by its title.
\<close>

type_synonym workbook = "(string \<times> sheet) list"

definition book_getitem :: "workbook \<Rightarrow> string \<Rightarrow> pyerr + (string \<times> sheet)" where
  "book_getitem book sheetname =
     (case find (\<lambda>(title, sh). title = sheetname) book of
        None \<Rightarrow> Inl KeyError
      | Some titled \<Rightarrow> Inr titled)"

definition read_sheet ::
  "libs \<Rightarrow> (string \<Rightarrow> pyerr + workbook) \<Rightarrow> string \<Rightarrow> string
     \<Rightarrow> pyerr + (string \<times> pyval list list)" where
  "read_sheet lib open_book filename sheetname =
     (case open_book filename of
        Inl e \<Rightarrow> Inl e
      | Inr book \<Rightarrow>
          (case book_getitem book sheetname of
             Inl e \<Rightarrow> Inl e
           | Inr (title, sh) \<Rightarrow>
               (case read lib sh (A1 ''A1'') None of
                  Inl e \<Rightarrow> Inl e
                | Inr data \<Rightarrow> Inr (title, data))))"

text \<open>
  \<open>pool.starmap(f, args)\<close> by its contract: every call \<open>f(*a)\<close> for \<open>a\<close> in \<open>args\<close> is made
  by some worker. When all of them return, the result is the list of what they returned, in
  the order of \<open>args\<close>. When some raise, \<open>starmap\<close> raises one of their exceptions; which
  one depends on the order in which the workers finish, and is left to \<open>pick\<close>.
\<close>

definition raised :: "('e + 'a) list \<Rightarrow> 'e list" where
  "raised results = concat (map (\<lambda>r. case r of Inl e \<Rightarrow> [e] | Inr y \<Rightarrow> []) results)"

definition returned :: "('e + 'a) list \<Rightarrow> 'a list" where
  "returned results = concat (map (\<lambda>r. case r of Inl e \<Rightarrow> [] | Inr y \<Rightarrow> [y]) results)"

definition starmap ::
  "(pyerr list \<Rightarrow> pyerr) \<Rightarrow> ('a \<Rightarrow> 'b \<Rightarrow> pyerr + 'c) \<Rightarrow> ('a \<times> 'b) list \<Rightarrow> pyerr + 'c list" where
  "starmap pick f args =
     (let results = map (\<lambda>(a, b). f a b) args
      in if raised results = [] then Inr (returned results) else Inl (pick (raised results)))"

text \<open>
  The dictionary comprehension \<open>{i[0]: i[1] for i in data}\<close> stores the pairs in order, a
  later one replacing an earlier one with the same key.
\<close>

definition dict_of :: "('k \<times> 'v) list \<Rightarrow> ('k \<rightharpoonup> 'v)" where
  "dict_of pairs = foldl (\<lambda>d (k, v). d(k \<mapsto> v)) Map.empty pairs"

definition load_workbook ::
  "(pyerr list \<Rightarrow> pyerr) \<Rightarrow> libs \<Rightarrow> (string \<Rightarrow> pyerr + workbook) \<Rightarrow> string
     \<Rightarrow> string list option \<Rightarrow> pyerr + (string \<rightharpoonup> pyval list list)" where
  "load_workbook pick lib open_book filename sheetnames =
     (case (case sheetnames of
              None \<Rightarrow> (case open_book filename of
                         Inl e \<Rightarrow> Inl e
                       | Inr book \<Rightarrow> Inr (map fst book))
            | Some names \<Rightarrow> Inr names) of
        Inl e \<Rightarrow> Inl e
      | Inr names \<Rightarrow>
          (case starmap pick (read_sheet lib open_book)
                  (zip (replicate (length names) filename) names) of
             Inl e \<Rightarrow> Inl e
           | Inr data \<Rightarrow> Inr (dict_of data)))"

text \<open>
  The sequential loop that the specification compares \<open>load_workbook\<close> with: the sheets
  are read one after the other, each result is stored under the sheet's title, and the
  first exception ends the loop.
\<close>

fun sequential_load ::
  "libs \<Rightarrow> (string \<Rightarrow> pyerr + workbook) \<Rightarrow> string \<Rightarrow> string list
     \<Rightarrow> (string \<rightharpoonup> pyval list list) \<Rightarrow> pyerr + (string \<rightharpoonup> pyval list list)" where
  "sequential_load lib open_book filename [] d = Inr d"
| "sequential_load lib open_book filename (sheetname # sheetnames) d =
     (case read_sheet lib open_book filename sheetname of
        Inl e \<Rightarrow> Inl e
      | Inr (title, data) \<Rightarrow>
          sequential_load lib open_book filename sheetnames (d(title \<mapsto> data)))"

section \<open>Example inputs\<close>

text \<open>
  A library environment for the worked examples: the table of error texts is xlrd's, a
  string corner is converted as \<open>xl_cell_to_rowcol\<close> does, and no library call raises.
\<close>

definition test_libs :: libs where
  "test_libs =
     \<lparr> xldate_as_datetime = (\<lambda>v mode. case v of VInt i \<Rightarrow> Inr (VDatetime i) | _ \<Rightarrow> Inl ValueError),
       error_text_from_code =
         map_of [(VInt 0, ''#NULL!''), (VInt 7, ''#DIV/0!''), (VInt 15, ''#VALUE!''),
                 (VInt 23, ''#REF!''), (VInt 29, ''#NAME?''), (VInt 36, ''#NUM!''),
                 (VInt 42, ''#N/A'')],
       coordinate_to_tuple = one_based \<circ> A1,
       cell_to_rowcol2 = xl_cell_to_rowcol,
       easyxf = Inr,
       call_raises = (\<lambda>call. None) \<rparr>"

text \<open>
  An xlrd sheet of two rows and two columns: a boolean and a blank cell in the first row,
  a number and an error cell in the second.
\<close>

definition test_grid :: "xlrd_cell list list" where
  "test_grid =
     [[\<lparr>ctype = XL_CELL_BOOLEAN, cvalue = VInt 1\<rparr>, \<lparr>ctype = XL_CELL_BLANK, cvalue = VStr []\<rparr>],
      [\<lparr>ctype = XL_CELL_NUMBER, cvalue = VFloat 2\<rparr>, \<lparr>ctype = XL_CELL_ERROR, cvalue = VInt 7\<rparr>]]"

definition test_xlrd_sheet :: xlrd_sheet where
  "test_xlrd_sheet =
     \<lparr> nrows = 2, ncols = 2,
       cell = (\<lambda>r c. if 0 \<le> r \<and> r < 2 \<and> 0 \<le> c \<and> c < 2
                      then Inr (test_grid ! nat r ! nat c) else Inl IndexError),
       book_datemode = 0 \<rparr>"

text \<open>A pyxlsb sheet of two rows, with an error code in the second.\<close>

definition test_pyxlsb_sheet :: pyxlsb_sheet where
  "test_pyxlsb_sheet =
     \<lparr> rows = [[\<lparr>cell_r = 0, cell_c = 0, cell_v = VStr ''a''\<rparr>,
                 \<lparr>cell_r = 0, cell_c = 1, cell_v = VFloat 1\<rparr>],
                [\<lparr>cell_r = 1, cell_c = 0, cell_v = VStr ''0x7''\<rparr>,
                 \<lparr>cell_r = 1, cell_c = 1, cell_v = VNone\<rparr>]] \<rparr>"

text \<open>An openpyxl sheet of one row; \<open>iter_rows\<close> answers for the whole sheet only.\<close>

definition test_openpyxl_sheet :: openpyxl_sheet where
  "test_openpyxl_sheet =
     \<lparr> max_row = 1, max_column = 2,
       iter_rows = (\<lambda>r1 c1 r2 c2. if (r1, c1, r2, c2) = (1, 1, 1, 2)
                                    then Inr [[VStr ''x'', VInt 3]] else Inr []) \<rparr>"

text \<open>A database with one package, and a workbook with two sheets.\<close>

definition test_db :: database where
  "test_db = \<lparr> packages = Some [(1, ''xlwings'')], connect_failure = None \<rparr>"

definition test_repr :: "db_exception \<Rightarrow> string" where
  "test_repr e = (case e of IntegrityError msg \<Rightarrow> ''IntegrityError('' @ msg @ '')''
                          | OperationalError msg \<Rightarrow> ''OperationalError('' @ msg @ '')'')"

definition test_open_book :: "string \<Rightarrow> pyerr + workbook" where
  "test_open_book filename =
     (if filename = ''book.xlsx''
      then Inr [(''Sheet1'', OpenpyxlReadOnlyWorksheet test_openpyxl_sheet),
                (''Chart'', OtherObject ''Chartsheet'')]
      else Inl (LibraryError ''FileNotFoundError''))"

section \<open>Properties of the cell-reference parser\<close>

lemma col_loop_gen: "col_loop cs e acc = acc + 26 ^ e * col_loop cs 0 0"
proof (induction cs arbitrary: e acc)
  case Nil show ?case by simp
next
  case (Cons c cs)
  have a: "col_loop cs (e + 1) (acc + (int (of_char c) - int (of_char CHR ''A'') + 1) * 26 ^ e)
      = (acc + (int (of_char c) - int (of_char CHR ''A'') + 1) * 26 ^ e) + 26 ^ (e + 1) * col_loop cs 0 0"
    by (rule Cons.IH)
  have b: "col_loop cs (0 + 1) (0 + (int (of_char c) - int (of_char CHR ''A'') + 1) * 26 ^ 0)
      = (0 + (int (of_char c) - int (of_char CHR ''A'') + 1) * 26 ^ 0) + 26 ^ (0 + 1) * col_loop cs 0 0"
    by (rule Cons.IH)
  show ?case
    unfolding col_loop.simps a b by (simp add: algebra_simps)
qed

lemma col_loop_base26: "col_loop (rev L) 0 0 = base26 L"
proof (induction L rule: rev_induct)
  case Nil show ?case by (simp add: base26_def)
next
  case (snoc c L)
  have "col_loop (rev (L @ [c])) 0 0 = col_loop (rev L) 1 (letter_value c)"
    by (simp add: letter_value_def)
  also have "\<dots> = letter_value c + 26 * col_loop (rev L) 0 0"
    by (subst col_loop_gen) simp
  also have "\<dots> = base26 (L @ [c])"
    by (simp add: snoc.IH base26_def)
  finally show ?case .
qed

lemma digit_not_upper: "is_digit c \<Longrightarrow> \<not> is_upper c"
  by (simp add: is_digit_def is_upper_def)

lemma digit_not_dollar: "is_digit c \<Longrightarrow> c \<noteq> CHR ''$''"
  by (auto simp: is_digit_def)

lemma upper_not_dollar: "is_upper c \<Longrightarrow> c \<noteq> CHR ''$''"
  by (auto simp: is_upper_def)

lemma dollar_not_upper: "\<not> is_upper CHR ''$''"
  by (simp add: is_upper_def)

lemma takeWhile_all: "\<forall>c\<in>set ds. P c \<Longrightarrow> takeWhile P ds = ds"
  by (induction ds) auto

lemma digits_plus_all:
  assumes "ds \<noteq> []" "\<forall>c\<in>set ds. is_digit c"
  shows "first_some (\<lambda>(row_str, s4). Some (col, row_str)) (digits_plus ds) = Some (col, ds)"
proof -
  obtain n where n: "length ds = Suc n" using assms(1) by (cases ds) auto
  have "digits_plus ds = (ds, []) # map (\<lambda>k. (take k ds, drop k ds)) (rev [1 ..< Suc n])"
    by (simp add: digits_plus_def takeWhile_all[OF assms(2)] n)
  then show ?thesis by simp
qed

lemma stage3:
  assumes "ds \<noteq> []" "\<forall>c\<in>set ds. is_digit c"
  shows "first_some (\<lambda>s3. first_some (\<lambda>(row_str, s4). Some (col, row_str)) (digits_plus s3))
           (opt_dollar (dollar d2 @ ds)) = Some (col, ds)"
proof (cases d2)
  case True
  then show ?thesis
    by (simp add: dollar_def opt_dollar_def digits_plus_all[OF assms])
next
  case False
  obtain d ds' where ds: "ds = d # ds'" using assms(1) by (cases ds) auto
  then have "d \<noteq> CHR ''$''" using assms(2) by (simp add: digit_not_dollar)
  then have "opt_dollar ds = [ds]" by (simp add: opt_dollar_def ds)
  with False show ?thesis
    by (simp add: dollar_def digits_plus_all[OF assms])
qed

lemma letters_exact:
  assumes "L \<noteq> []" "length L \<le> 3" "\<forall>c\<in>set L. is_upper c" "\<not> is_upper r"
  shows "\<exists>more. letters_1_3 (L @ r # rest) = (L, r # rest) # more"
proof -
  consider a where "L = [a]" | a b where "L = [a, b]" | a b c where "L = [a, b, c]"
    using assms(1,2)
    by (cases L; cases "tl L"; cases "tl (tl L)"; cases "tl (tl (tl L))") auto
  then show ?thesis
  proof cases
    case 1 with assms(3,4) show ?thesis by (simp add: letters_1_3_def)
  next
    case 2 with assms(3,4) show ?thesis by (simp add: letters_1_3_def)
  next
    case 3 with assms(3,4) show ?thesis by (simp add: letters_1_3_def)
  qed
qed

lemma re_match_a1:
  assumes "L \<noteq> []" "length L \<le> 3" "\<forall>c\<in>set L. is_upper c"
      and "ds \<noteq> []" "\<forall>c\<in>set ds. is_digit c"
  shows "re_match (dollar d1 @ L @ dollar d2 @ ds) = Some (L, ds)"
proof -
  obtain r rest where rest: "dollar d2 @ ds = r # rest" and r: "\<not> is_upper r"
  proof (cases d2)
    case True
    then have "dollar d2 @ ds = CHR ''$'' # ds" by (simp add: dollar_def)
    then show ?thesis using that dollar_not_upper by blast
  next
    case False
    obtain d ds' where ds: "ds = d # ds'" using assms(4) by (cases ds) auto
    then have "\<not> is_upper d" using assms(5) by (simp add: digit_not_upper)
    moreover have "dollar d2 @ ds = d # ds'" using False ds by (simp add: dollar_def)
    ultimately show ?thesis using that by blast
  qed
  have inner: "first_some (\<lambda>(col_str, s2).
         first_some (\<lambda>s3.
           first_some (\<lambda>(row_str, s4). Some (col_str, row_str)) (digits_plus s3))
           (opt_dollar s2))
         (letters_1_3 (L @ dollar d2 @ ds)) = Some (L, ds)"
  proof -
    obtain more where "letters_1_3 (L @ r # rest) = (L, r # rest) # more"
      using letters_exact[OF assms(1-3) r] by blast
    then show ?thesis
      unfolding rest by (simp add: rest[symmetric] stage3[OF assms(4,5)])
  qed
  let ?X = "L @ dollar d2 @ ds"
  have od: "opt_dollar (dollar d1 @ ?X) = (if d1 then [?X, CHR ''$'' # ?X] else [?X])"
  proof (cases d1)
    case True
    then show ?thesis by (simp add: dollar_def opt_dollar_def)
  next
    case False
    obtain a L' where L: "L = a # L'" using assms(1) by (cases L) auto
    then have "a \<noteq> CHR ''$''" using assms(3) by (simp add: upper_not_dollar)
    then have "opt_dollar ?X = [?X]"
      by (simp add: opt_dollar_def L)
    with False show ?thesis by (simp add: dollar_def)
  qed
  show ?thesis
    unfolding re_match_def od using inner by (cases d1) simp_all
qed

text \<open>
  Claim C1. For a reference made of an optional \<open>$\<close>, one to three uppercase letters \<open>L\<close>,
  an optional \<open>$\<close> and a non-empty run of decimal digits \<open>ds\<close> with value \<open>n\<close>,
  \<open>xl_cell_to_rowcol\<close> returns \<open>(n - 1, col - 1)\<close> where \<open>col\<close> is the base-26 value of \<open>L\<close>
  with A = 1 .. Z = 26; the result is the same whether or not either \<open>$\<close> is present.
\<close>

theorem xl_cell_to_rowcol_a1:
  assumes "L \<noteq> []" "length L \<le> 3" "\<forall>c\<in>set L. is_upper c"
      and "ds \<noteq> []" "\<forall>c\<in>set ds. is_digit c"
  shows "xl_cell_to_rowcol (dollar d1 @ L @ dollar d2 @ ds)
           = Inr (int_of_digits ds - 1, base26 L - 1)"
  using assms(1)
  by (simp add: xl_cell_to_rowcol_def re_match_a1[OF assms] col_loop_base26)

theorem xl_cell_to_rowcol_a1_witness:
  "xl_cell_to_rowcol ''$AB$12'' = Inr (11, 27)
   \<and> xl_cell_to_rowcol ''AB12'' = Inr (11, 27)"
  using xl_cell_to_rowcol_a1[of "''AB''" "''12''" True True]
        xl_cell_to_rowcol_a1[of "''AB''" "''12''" False False]
  by (simp add: dollar_def is_upper_def is_digit_def int_of_digits_def base26_def
      digit_val_def letter_value_def)

lemma first_some_SomeD: "first_some f xs = Some y \<Longrightarrow> \<exists>x\<in>set xs. f x = Some y"
  by (induction xs) (auto split: option.splits)

lemma letters_1_3_mem:
  assumes "(c, s2) \<in> set (letters_1_3 s1)"
  shows "c \<noteq> [] \<and> length c \<le> 3 \<and> list_all is_upper c"
proof -
  from assms obtain k where k: "k \<in> {3, 2, 1}" "k \<le> length s1" "list_all is_upper (take k s1)"
    "c = take k s1"
    unfolding letters_1_3_def set_map set_filter by auto
  then have "length c = k" by simp
  with k show ?thesis by auto
qed

lemma re_match_groups:
  assumes "re_match s = Some (col_str, row_str)"
  shows "col_str \<noteq> [] \<and> length col_str \<le> 3 \<and> list_all is_upper col_str"
proof -
  from assms obtain s1 where
    "first_some (\<lambda>(col_str, s2).
         first_some (\<lambda>s3.
           first_some (\<lambda>(row_str, s4). Some (col_str, row_str)) (digits_plus s3))
           (opt_dollar s2)) (letters_1_3 s1) = Some (col_str, row_str)"
    unfolding re_match_def by (blast dest: first_some_SomeD)
  then obtain c s2 where m: "(c, s2) \<in> set (letters_1_3 s1)"
    and "first_some (\<lambda>s3.
           first_some (\<lambda>(row_str, s4). Some (c, row_str)) (digits_plus s3))
           (opt_dollar s2) = Some (col_str, row_str)"
    by (fastforce dest: first_some_SomeD)
  then obtain s3 where
    "first_some (\<lambda>(row_str, s4). Some (c, row_str)) (digits_plus s3) = Some (col_str, row_str)"
    by (blast dest: first_some_SomeD)
  then have "c = col_str"
    by (fastforce dest: first_some_SomeD)
  with m show ?thesis
    by (simp add: letters_1_3_mem)
qed

lemma upper_letter_value: "is_upper c \<Longrightarrow> 1 \<le> letter_value c"
  by (simp add: is_upper_def letter_value_def)

lemma letter_value_1: "letter_value c = 1 \<Longrightarrow> c = CHR ''A''"
proof -
  assume "letter_value c = 1"
  then have "(of_char c :: nat) = of_char CHR ''A''" by (simp add: letter_value_def)
  then show ?thesis by (simp only: of_char_eq_iff)
qed

lemma base26_eq_1:
  assumes "col_str \<noteq> []" "length col_str \<le> 3" "list_all is_upper col_str" "base26 col_str = 1"
  shows "col_str = ''A''"
proof -
  consider a where "col_str = [a]" | a b where "col_str = [a, b]" | a b c where "col_str = [a, b, c]"
    using assms(1,2)
    by (cases col_str; cases "tl col_str"; cases "tl (tl col_str)"; cases "tl (tl (tl col_str))") auto
  then show ?thesis
  proof cases
    case 1 with assms(4) show ?thesis by (simp add: base26_def letter_value_1)
  next
    case 2
    with assms(3) have "1 \<le> letter_value a" "1 \<le> letter_value b"
      by (simp_all add: upper_letter_value)
    with 2 assms(4) show ?thesis by (simp add: base26_def)
  next
    case 3
    with assms(3) have "1 \<le> letter_value a" "1 \<le> letter_value b" "1 \<le> letter_value c"
      by (simp_all add: upper_letter_value)
    with 3 assms(4) show ?thesis by (simp add: base26_def)
  qed
qed

text \<open>
  Claim C10. On the empty string \<open>xl_cell_to_rowcol\<close> returns \<open>(0, 0)\<close>, where the pattern
  itself does not match and the lookup of its groups would raise. No other string takes that
  way out: a non-empty string that the pattern does not match raises, and a non-empty string
  that yields \<open>(0, 0)\<close> does so because it was parsed as column A, row 1.
\<close>

theorem xl_cell_to_rowcol_empty:
  "xl_cell_to_rowcol [] = Inr (0, 0)
   \<and> re_match [] = None
   \<and> (\<forall>s. s \<noteq> [] \<and> re_match s = None \<longrightarrow> xl_cell_to_rowcol s = Inl AttributeError)
   \<and> (\<forall>s. s \<noteq> [] \<and> xl_cell_to_rowcol s = Inr (0, 0) \<longrightarrow>
         (\<exists>row_str. re_match s = Some (''A'', row_str) \<and> int_of_digits row_str = 1))"
proof (intro conjI allI impI)
  show "xl_cell_to_rowcol [] = Inr (0, 0)" by (simp add: xl_cell_to_rowcol_def)
  show "re_match [] = None"
    by (simp add: re_match_def opt_dollar_def letters_1_3_def)
next
  fix s assume "s \<noteq> [] \<and> re_match s = None"
  then show "xl_cell_to_rowcol s = Inl AttributeError" by (simp add: xl_cell_to_rowcol_def)
next
  fix s assume a: "s \<noteq> [] \<and> xl_cell_to_rowcol s = Inr (0, 0)"
  then obtain col_str row_str where m: "re_match s = Some (col_str, row_str)"
    by (cases "re_match s") (auto simp: xl_cell_to_rowcol_def)
  from a m have "xl_cell_to_rowcol s = Inr (int_of_digits row_str - 1, base26 col_str - 1)"
    by (simp add: xl_cell_to_rowcol_def col_loop_base26)
  with a have v: "int_of_digits row_str = 1" "base26 col_str = 1"
    by simp_all
  from re_match_groups[OF m] v(2) have "col_str = ''A''"
    by (simp add: base26_eq_1)
  with m v(1) show "\<exists>row_str. re_match s = Some (''A'', row_str) \<and> int_of_digits row_str = 1"
    by simp
qed

lemma re_match_A1: "re_match ''A1'' = Some (''A'', ''1'')"
  using re_match_a1[of "''A''" "''1''" False False]
  by (simp add: dollar_def is_upper_def is_digit_def)

theorem xl_cell_to_rowcol_empty_witness:
  "(''A1'' \<noteq> [] \<and> xl_cell_to_rowcol ''A1'' = Inr (0, 0))
   \<and> (\<exists>row_str. re_match ''A1'' = Some (''A'', row_str) \<and> int_of_digits row_str = 1)
   \<and> (''a1'' \<noteq> [] \<and> re_match ''a1'' = None)
   \<and> xl_cell_to_rowcol ''a1'' = Inl AttributeError"
proof -
  have a: "''A1'' \<noteq> [] \<and> xl_cell_to_rowcol ''A1'' = Inr (0, 0)"
    by (simp add: xl_cell_to_rowcol_def re_match_A1 int_of_digits_def digit_val_def)
  have b: "''a1'' \<noteq> [] \<and> re_match ''a1'' = None"
    by (simp add: re_match_def opt_dollar_def letters_1_3_def is_upper_def)
  from xl_cell_to_rowcol_empty a
  have c: "\<exists>row_str. re_match ''A1'' = Some (''A'', row_str) \<and> int_of_digits row_str = 1"
    by blast
  from xl_cell_to_rowcol_empty b
  have d: "xl_cell_to_rowcol ''a1'' = Inl AttributeError"
    by blast
  from a b c d show ?thesis by blast
qed

section \<open>Properties of read for an xlrd sheet\<close>

lemma length_py_range: "length (py_range a b) = nat (b - a)"
  by (simp add: py_range_def)

lemma nth_py_range: "i < nat (b - a) \<Longrightarrow> py_range a b ! i = a + int i"
  unfolding py_range_def by (subst nth_upto) auto

lemma mapM_err_Inr_iff:
  "mapM_err f xs = Inr ys \<longleftrightarrow>
     length ys = length xs \<and> (\<forall>i < length xs. f (xs ! i) = Inr (ys ! i))"
proof (induction xs arbitrary: ys)
  case Nil
  show ?case by auto
next
  case (Cons x xs)
  show ?case
  proof (cases ys)
    case Nil
    then show ?thesis by (auto split: sum.splits)
  next
    case (Cons y ys')
    have "mapM_err f (x # xs) = Inr (y # ys') \<longleftrightarrow> f x = Inr y \<and> mapM_err f xs = Inr ys'"
      by (auto split: sum.splits)
    also have "\<dots> \<longleftrightarrow> f x = Inr y \<and> length ys' = length xs
        \<and> (\<forall>i < length xs. f (xs ! i) = Inr (ys' ! i))"
      by (simp add: Cons.IH)
    also have "\<dots> \<longleftrightarrow> length (y # ys') = length (x # xs)
        \<and> (\<forall>i < length (x # xs). f ((x # xs) ! i) = Inr ((y # ys') ! i))"
      by (auto simp: nth_Cons split: nat.splits)
    finally show ?thesis using Cons by simp
  qed
qed

lemma mapM_err_total:
  "\<forall>x \<in> set xs. \<exists>y. f x = Inr y \<Longrightarrow> \<exists>ys. mapM_err f xs = Inr ys"
proof (induction xs)
  case Nil
  show ?case by simp
next
  case (Cons x xs)
  then obtain y ys where "f x = Inr y" "mapM_err f xs = Inr ys" by auto
  then show ?case by simp
qed

lemma mapM_err_Inl:
  "mapM_err f xs = Inl e \<Longrightarrow> \<exists>x \<in> set xs. f x = Inl e"
  by (induction xs) (auto split: sum.splits)

lemma set_py_range: "set (py_range a b) = {a ..< b}"
  by (auto simp: py_range_def)

text \<open>
  The mapping of a cell by its type in \<open>excel.py\<close>: a date goes through
  \<open>xldate_as_datetime\<close>, an empty or blank cell gives \<open>None\<close>, an error cell the text of
  its code, a boolean cell a \<open>bool\<close>, and any other cell its stored value.
\<close>

lemma xlrd_cell_value_by_type:
  assumes "cell sh r c = Inr x"
  shows "ctype x = XL_CELL_DATE \<Longrightarrow>
           xlrd_cell_value lib sh r c = xldate_as_datetime lib (cvalue x) (book_datemode sh)"
    and "ctype x = XL_CELL_EMPTY \<or> ctype x = XL_CELL_BLANK \<Longrightarrow>
           xlrd_cell_value lib sh r c = Inr VNone"
    and "ctype x = XL_CELL_ERROR \<Longrightarrow> error_text_from_code lib (cvalue x) = Some t \<Longrightarrow>
           xlrd_cell_value lib sh r c = Inr (VStr t)"
    and "ctype x = XL_CELL_BOOLEAN \<Longrightarrow>
           xlrd_cell_value lib sh r c = Inr (VBool (py_bool (cvalue x)))"
    and "ctype x = XL_CELL_TEXT \<or> ctype x = XL_CELL_NUMBER \<Longrightarrow>
           xlrd_cell_value lib sh r c = Inr (cvalue x)"
  using assms by (auto simp: xlrd_cell_value_def)

lemma read_xlrd_tuples:
  "read_xlrd lib sh (RC r1 c1) (Some (RC r2 c2)) =
     mapM_err (\<lambda>r. mapM_err (\<lambda>c. xlrd_cell_value lib sh r c) (py_range (c1 - 1) c2))
       (py_range (r1 - 1) r2)"
  by (simp add: read_xlrd_def one_based_def)

text \<open>
  Claim C3. For an xlrd sheet whose cells within \<open>nrows\<close> and \<open>ncols\<close> can be read and
  converted, and 1-based corners \<open>(r1, c1)\<close>, \<open>(r2, c2)\<close> within the sheet with \<open>r1 \<le> r2\<close>
  and \<open>c1 \<le> c2\<close>, \<open>read\<close> returns \<open>r2 - r1 + 1\<close> rows of \<open>c2 - c1 + 1\<close> values, and entry
  \<open>[i][j]\<close> is the value of the cell at the 0-based position \<open>(r1 - 1 + i, c1 - 1 + j)\<close>.
\<close>

theorem read_xlrd_rectangle:
  assumes rows: "1 \<le> r1" "r1 \<le> r2" "r2 \<le> nrows sh"
      and cols: "1 \<le> c1" "c1 \<le> c2" "c2 \<le> ncols sh"
      and cells: "\<forall>r c. 0 \<le> r \<and> r < nrows sh \<and> 0 \<le> c \<and> c < ncols sh \<longrightarrow>
                    (\<exists>v. xlrd_cell_value lib sh r c = Inr v)"
  shows "\<exists>vs. read lib (XlrdSheet sh) (RC r1 c1) (Some (RC r2 c2)) = Inr vs
           \<and> length vs = nat (r2 - r1 + 1)
           \<and> (\<forall>i < nat (r2 - r1 + 1).
                 length (vs ! i) = nat (c2 - c1 + 1)
                 \<and> (\<forall>j < nat (c2 - c1 + 1).
                       xlrd_cell_value lib sh (r1 - 1 + int i) (c1 - 1 + int j)
                         = Inr (vs ! i ! j)))"
proof -
  let ?row = "\<lambda>r. mapM_err (\<lambda>c. xlrd_cell_value lib sh r c) (py_range (c1 - 1) c2)"
  have row_ok: "\<exists>vs. ?row r = Inr vs" if "r \<in> set (py_range (r1 - 1) r2)" for r
  proof (rule mapM_err_total, rule ballI)
    fix c assume "c \<in> set (py_range (c1 - 1) c2)"
    with that rows cols have "0 \<le> r \<and> r < nrows sh \<and> 0 \<le> c \<and> c < ncols sh"
      by (simp add: set_py_range)
    with cells show "\<exists>v. xlrd_cell_value lib sh r c = Inr v" by blast
  qed
  then obtain vs where vs: "mapM_err ?row (py_range (r1 - 1) r2) = Inr vs"
    using mapM_err_total[of "py_range (r1 - 1) r2" ?row] by blast
  then have len: "length vs = nat (r2 - r1 + 1)"
    and rowi: "\<forall>i < nat (r2 - r1 + 1). ?row (py_range (r1 - 1) r2 ! i) = Inr (vs ! i)"
    by (simp_all add: mapM_err_Inr_iff length_py_range algebra_simps)
  have "length (vs ! i) = nat (c2 - c1 + 1)
        \<and> (\<forall>j < nat (c2 - c1 + 1).
              xlrd_cell_value lib sh (r1 - 1 + int i) (c1 - 1 + int j) = Inr (vs ! i ! j))"
    if i: "i < nat (r2 - r1 + 1)" for i
  proof -
    from i have nth: "py_range (r1 - 1) r2 ! i = r1 - 1 + int i"
      by (simp add: nth_py_range)
    from rowi i have "?row (py_range (r1 - 1) r2 ! i) = Inr (vs ! i)" by blast
    then have "?row (r1 - 1 + int i) = Inr (vs ! i)" by (simp only: nth)
    then have l: "length (vs ! i) = nat (c2 - c1 + 1)"
      and e: "\<forall>j < nat (c2 - c1 + 1).
            xlrd_cell_value lib sh (r1 - 1 + int i) (py_range (c1 - 1) c2 ! j) = Inr (vs ! i ! j)"
      by (simp_all add: mapM_err_Inr_iff length_py_range algebra_simps)
    from e have "\<forall>j < nat (c2 - c1 + 1).
            xlrd_cell_value lib sh (r1 - 1 + int i) (c1 - 1 + int j) = Inr (vs ! i ! j)"
      by (simp add: nth_py_range)
    with l show ?thesis by simp
  qed
  with vs len show ?thesis
    by (simp add: read_def read_xlrd_tuples)
qed

lemma test_sheet_cells:
  "\<forall>r c. 0 \<le> r \<and> r < nrows test_xlrd_sheet \<and> 0 \<le> c \<and> c < ncols test_xlrd_sheet \<longrightarrow>
     (\<exists>v. xlrd_cell_value test_libs test_xlrd_sheet r c = Inr v)"
proof (intro allI impI)
  fix r c :: int
  assume "0 \<le> r \<and> r < nrows test_xlrd_sheet \<and> 0 \<le> c \<and> c < ncols test_xlrd_sheet"
  then have "(r = 0 \<or> r = 1) \<and> (c = 0 \<or> c = 1)"
    by (auto simp: test_xlrd_sheet_def)
  then show "\<exists>v. xlrd_cell_value test_libs test_xlrd_sheet r c = Inr v"
    by (auto simp: xlrd_cell_value_def test_xlrd_sheet_def test_grid_def test_libs_def)
qed

theorem read_xlrd_rectangle_witness:
  "\<exists>vs. read test_libs (XlrdSheet test_xlrd_sheet) (RC 1 1) (Some (RC 2 2)) = Inr vs
     \<and> length vs = 2 \<and> length (vs ! 1) = 2
     \<and> xlrd_cell_value test_libs test_xlrd_sheet 1 1 = Inr (vs ! 1 ! 1)
     \<and> xlrd_cell_value test_libs test_xlrd_sheet 1 1 = Inr (VStr ''#DIV/0!'')"
proof -
  have b: "(1::int) \<le> 1" "(1::int) \<le> 2" "2 \<le> nrows test_xlrd_sheet" "2 \<le> ncols test_xlrd_sheet"
    by (simp_all add: test_xlrd_sheet_def)
  from read_xlrd_rectangle[OF b(1) b(2) b(3) b(1) b(2) b(4) test_sheet_cells]
  obtain vs where vs: "read test_libs (XlrdSheet test_xlrd_sheet) (RC 1 1) (Some (RC 2 2)) = Inr vs"
    "length vs = nat (2 - 1 + 1)"
    "\<forall>i < nat (2 - 1 + 1). length (vs ! i) = nat (2 - 1 + 1)
        \<and> (\<forall>j < nat (2 - 1 + 1).
             xlrd_cell_value test_libs test_xlrd_sheet (1 - 1 + int i) (1 - 1 + int j) = Inr (vs ! i ! j))"
    by blast
  from vs(3) have "length (vs ! 1) = nat (2 - 1 + 1)
        \<and> (\<forall>j < nat (2 - 1 + 1).
             xlrd_cell_value test_libs test_xlrd_sheet (1 - 1 + int 1) (1 - 1 + int j) = Inr (vs ! 1 ! j))"
    by (rule allE[where x = 1]) simp
  then have r1: "length (vs ! 1) = 2"
    and cj: "\<forall>j < nat (2 - 1 + 1).
             xlrd_cell_value test_libs test_xlrd_sheet (1 - 1 + int 1) (1 - 1 + int j) = Inr (vs ! 1 ! j)"
    by simp_all
  from cj have "xlrd_cell_value test_libs test_xlrd_sheet (1 - 1 + int 1) (1 - 1 + int 1) = Inr (vs ! 1 ! 1)"
    by (rule allE[where x = 1]) simp
  then have c11: "xlrd_cell_value test_libs test_xlrd_sheet 1 1 = Inr (vs ! 1 ! 1)" by simp
  have v: "xlrd_cell_value test_libs test_xlrd_sheet 1 1 = Inr (VStr ''#DIV/0!'')"
    by (simp add: xlrd_cell_value_def test_xlrd_sheet_def test_grid_def test_libs_def)
  from vs(1,2) r1 c11 v show ?thesis by simp
qed

text \<open>
  Claim C2. On a sheet whose first row holds a boolean cell (stored value 1) and a blank
  cell (stored value the empty string), \<open>read\<close> of \<open>ch05/excel.py\<close> returns the stored
  values \<open>1\<close> and \<open>""\<close>, where \<open>read\<close> of \<open>excel.py\<close> returns \<open>True\<close> and \<open>None\<close>.
\<close>

theorem ch05_read_boolean_blank:
  "ch05_read_xlrd test_libs test_xlrd_sheet (RC 1 1) (Some (RC 1 2)) = Inr [[VInt 1, VStr []]]
   \<and> read test_libs (XlrdSheet test_xlrd_sheet) (RC 1 1) (Some (RC 1 2)) = Inr [[VBool True, VNone]]"
  by (simp add: read_def read_xlrd_def ch05_read_xlrd_def ch05_one_based_def one_based_def
      py_range_def upto_rec1 xlrd_cell_value_def ch05_xlrd_cell_value_def
      test_xlrd_sheet_def test_grid_def test_libs_def)

section \<open>The pyxlsb branch of read\<close>

lemma errors_get_other:
  "v \<notin> VStr ` set (map fst errors) \<Longrightarrow> errors_get v = v"
proof (cases v)
  case (VStr s)
  assume "v \<notin> VStr ` set (map fst errors)"
  with VStr have "s \<notin> fst ` set errors" by auto
  then have "map_of errors s = None" by (simp add: map_of_eq_None_iff)
  with VStr show ?thesis by (simp add: errors_get_def)
qed (simp_all add: errors_get_def)

lemma errors_get_codes:
  "map errors_get (map VStr [''0x0'', ''0x7'', ''0xf'', ''0x17'', ''0x1d'', ''0x24'', ''0x2a''])
     = map VStr [''#NULL!'', ''#DIV/0!'', ''#VALUE!'', ''#REF!'', ''#NAME?'', ''#NUM!'', ''#N/A'']"
  by (simp add: errors_get_def errors_def)

lemma py_slice_map: "py_slice (map f xs) lo hi = map f (py_slice xs lo hi)"
  by (cases hi) (simp_all add: py_slice_def drop_map take_map)

lemma set_py_slice: "set (py_slice xs lo hi) \<subseteq> set xs"
  unfolding py_slice_def by (meson set_drop_subset set_take_subset subset_trans)

lemma islice_subset: "islice xs a b = Inr ys \<Longrightarrow> set ys \<subseteq> set xs"
  unfolding islice_def
  by (auto split: if_splits option.splits dest: in_set_dropD in_set_takeD)

lemma read_pyxlsb_cells:
  assumes "read_pyxlsb sh first_cell last_cell = Inr data"
  shows "\<exists>cells. data = map (map (\<lambda>cell. errors_get (cell_v cell))) cells
           \<and> list_all (\<lambda>row. list_ex (\<lambda>src. set row \<subseteq> set src) (rows sh)) cells"
proof -
  from assms obtain fc lc rs where
    rs: "islice (rows sh) (fst fc - 1) (map_option fst lc) = Inr rs"
    and data: "data = map (\<lambda>row. py_slice (map (\<lambda>cell. errors_get (cell_v cell)) row)
                                 (snd fc - 1) (map_option snd lc)) rs"
    unfolding read_pyxlsb_def by (auto split: sum.splits)
  let ?cells = "map (\<lambda>row. py_slice row (snd fc - 1) (map_option snd lc)) rs"
  have "data = map (map (\<lambda>cell. errors_get (cell_v cell))) ?cells"
    by (simp add: data py_slice_map)
  moreover have "list_all (\<lambda>row. list_ex (\<lambda>src. set row \<subseteq> set src) (rows sh)) ?cells"
    unfolding list_all_iff list_ex_iff
  proof
    fix row assume "row \<in> set ?cells"
    then obtain src where "src \<in> set rs" "row = py_slice src (snd fc - 1) (map_option snd lc)"
      by auto
    with islice_subset[OF rs] set_py_slice[of src]
    show "\<exists>src \<in> set (rows sh). set row \<subseteq> set src" by blast
  qed
  ultimately show ?thesis by blast
qed

text \<open>
  Claim C6. In \<open>read\<close> for a pyxlsb sheet every returned value is \<open>errors.get(v, v)\<close> of the
  value \<open>v\<close> of a cell of the sheet: each of the seven error codes is replaced by its
  Excel error string, and every other value is returned as it is.
\<close>

theorem read_pyxlsb_error_codes:
  "map errors_get (map VStr [''0x0'', ''0x7'', ''0xf'', ''0x17'', ''0x1d'', ''0x24'', ''0x2a''])
     = map VStr [''#NULL!'', ''#DIV/0!'', ''#VALUE!'', ''#REF!'', ''#NAME?'', ''#NUM!'', ''#N/A'']
   \<and> (\<forall>v. v \<notin> VStr ` set [''0x0'', ''0x7'', ''0xf'', ''0x17'', ''0x1d'', ''0x24'', ''0x2a'']
          \<longrightarrow> errors_get v = v)
   \<and> (\<forall>lib sh first_cell last_cell data.
         read lib (PyxlsbWorksheet sh) first_cell last_cell = Inr data \<longrightarrow>
           (\<exists>cells. data = map (map (\<lambda>cell. errors_get (cell_v cell))) cells
              \<and> list_all (\<lambda>row. list_ex (\<lambda>src. set row \<subseteq> set src) (rows sh)) cells))"
proof (intro conjI allI impI)
  show "map errors_get (map VStr [''0x0'', ''0x7'', ''0xf'', ''0x17'', ''0x1d'', ''0x24'', ''0x2a''])
     = map VStr [''#NULL!'', ''#DIV/0!'', ''#VALUE!'', ''#REF!'', ''#NAME?'', ''#NUM!'', ''#N/A'']"
    by (rule errors_get_codes)
next
  fix v assume "v \<notin> VStr ` set [''0x0'', ''0x7'', ''0xf'', ''0x17'', ''0x1d'', ''0x24'', ''0x2a'']"
  then have "v \<notin> VStr ` set (map fst errors)" by (simp add: errors_def)
  then show "errors_get v = v" by (rule errors_get_other)
next
  fix lib sh first_cell last_cell data
  assume "read lib (PyxlsbWorksheet sh) first_cell last_cell = Inr data"
  then have "read_pyxlsb sh first_cell last_cell = Inr data" by (simp add: read_def)
  then show "\<exists>cells. data = map (map (\<lambda>cell. errors_get (cell_v cell))) cells
              \<and> list_all (\<lambda>row. list_ex (\<lambda>src. set row \<subseteq> set src) (rows sh)) cells"
    by (rule read_pyxlsb_cells)
qed

lemma one_based_A1: "one_based (A1 ''A1'') = Inr (1, 1)"
  by (simp add: one_based_def xl_cell_to_rowcol_def re_match_A1 int_of_digits_def digit_val_def)

lemma test_pyxlsb_read:
  "read test_libs (PyxlsbWorksheet test_pyxlsb_sheet) (A1 ''A1'') None
     = Inr [[VStr ''a'', VFloat 1], [VStr ''#DIV/0!'', VNone]]"
  by (simp add: read_def read_pyxlsb_def one_based_A1 pyxlsb_last_def islice_def py_slice_def
      slice_bound_def test_pyxlsb_sheet_def errors_get_def errors_def)

theorem read_pyxlsb_error_codes_witness:
  "VFloat 1 \<notin> VStr ` set [''0x0'', ''0x7'', ''0xf'', ''0x17'', ''0x1d'', ''0x24'', ''0x2a'']
   \<and> errors_get (VFloat 1) = VFloat 1
   \<and> read test_libs (PyxlsbWorksheet test_pyxlsb_sheet) (A1 ''A1'') None
       = Inr [[VStr ''a'', VFloat 1], [VStr ''#DIV/0!'', VNone]]
   \<and> (\<exists>cells. [[VStr ''a'', VFloat 1], [VStr ''#DIV/0!'', VNone]]
                  = map (map (\<lambda>cell. errors_get (cell_v cell))) cells
          \<and> list_all (\<lambda>row. list_ex (\<lambda>src. set row \<subseteq> set src) (rows test_pyxlsb_sheet)) cells)"
proof -
  have a: "VFloat 1 \<notin> VStr ` set [''0x0'', ''0x7'', ''0xf'', ''0x17'', ''0x1d'', ''0x24'', ''0x2a'']"
    by auto
  with read_pyxlsb_error_codes have b: "errors_get (VFloat 1) = VFloat 1" by blast
  from read_pyxlsb_error_codes test_pyxlsb_read
  have c: "\<exists>cells. [[VStr ''a'', VFloat 1], [VStr ''#DIV/0!'', VNone]]
                  = map (map (\<lambda>cell. errors_get (cell_v cell))) cells
          \<and> list_all (\<lambda>row. list_ex (\<lambda>src. set row \<subseteq> set src) (rows test_pyxlsb_sheet)) cells"
    by blast
  from a b c test_pyxlsb_read show ?thesis by blast
qed


lemma islice_None: "0 \<le> a \<Longrightarrow> islice xs a None = Inr (drop (nat a) xs)"
  by (simp add: islice_def)

lemma py_slice_None: "0 \<le> a \<Longrightarrow> py_slice xs a None = drop (nat a) xs"
  by (simp add: py_slice_def slice_bound_def min_def)

lemma xlrd_loop_rectangle:
  assumes rs: "1 \<le> r1" "r1 \<le> r2" "r2 \<le> nrows sh"
      and cs: "1 \<le> c1" "c1 \<le> c2" "c2 \<le> ncols sh"
      and cells: "\<forall>r c. 0 \<le> r \<and> r < nrows sh \<and> 0 \<le> c \<and> c < ncols sh \<longrightarrow>
                    (\<exists>v. xlrd_cell_value lib sh r c = Inr v)"
  shows "\<exists>vs. mapM_err (\<lambda>r. mapM_err (\<lambda>c. xlrd_cell_value lib sh r c) (py_range (c1 - 1) c2))
                  (py_range (r1 - 1) r2) = Inr vs
           \<and> length vs = nat (r2 - r1 + 1)
           \<and> (\<forall>i < nat (r2 - r1 + 1).
                 length (vs ! i) = nat (c2 - c1 + 1)
                 \<and> (\<forall>j < nat (c2 - c1 + 1).
                       xlrd_cell_value lib sh (r1 - 1 + int i) (c1 - 1 + int j)
                         = Inr (vs ! i ! j)))"
proof -
  let ?line = "\<lambda>r. mapM_err (\<lambda>c. xlrd_cell_value lib sh r c) (py_range (c1 - 1) c2)"
  have "\<exists>vs. ?line r = Inr vs" if "r \<in> set (py_range (r1 - 1) r2)" for r
  proof (rule mapM_err_total, rule ballI)
    fix c assume "c \<in> set (py_range (c1 - 1) c2)"
    with that rs cs have "0 \<le> r \<and> r < nrows sh \<and> 0 \<le> c \<and> c < ncols sh"
      by (simp add: set_py_range)
    with cells show "\<exists>v. xlrd_cell_value lib sh r c = Inr v" by blast
  qed
  then obtain vs where vs: "mapM_err ?line (py_range (r1 - 1) r2) = Inr vs"
    using mapM_err_total[of "py_range (r1 - 1) r2" ?line] by blast
  then have len: "length vs = nat (r2 - r1 + 1)"
    and line: "\<forall>i < nat (r2 - r1 + 1). ?line (py_range (r1 - 1) r2 ! i) = Inr (vs ! i)"
    by (simp_all add: mapM_err_Inr_iff length_py_range algebra_simps)
  have "length (vs ! i) = nat (c2 - c1 + 1)
        \<and> (\<forall>j < nat (c2 - c1 + 1).
              xlrd_cell_value lib sh (r1 - 1 + int i) (c1 - 1 + int j) = Inr (vs ! i ! j))"
    if i: "i < nat (r2 - r1 + 1)" for i
  proof -
    from i have nth: "py_range (r1 - 1) r2 ! i = r1 - 1 + int i"
      by (simp add: nth_py_range)
    from line i have "?line (py_range (r1 - 1) r2 ! i) = Inr (vs ! i)" by blast
    then have "?line (r1 - 1 + int i) = Inr (vs ! i)" by (simp only: nth)
    then have l: "length (vs ! i) = nat (c2 - c1 + 1)"
      and e: "\<forall>j < nat (c2 - c1 + 1).
            xlrd_cell_value lib sh (r1 - 1 + int i) (py_range (c1 - 1) c2 ! j) = Inr (vs ! i ! j)"
      by (simp_all add: mapM_err_Inr_iff length_py_range algebra_simps)
    from e have "\<forall>j < nat (c2 - c1 + 1).
            xlrd_cell_value lib sh (r1 - 1 + int i) (c1 - 1 + int j) = Inr (vs ! i ! j)"
      by (simp add: nth_py_range)
    with l show ?thesis by simp
  qed
  with vs len show ?thesis by simp
qed

lemma read_xlrd_default:
  "one_based first_cell = Inr (r, c) \<Longrightarrow>
     read lib (XlrdSheet xs) first_cell None
       = mapM_err (\<lambda>row. mapM_err (\<lambda>col. xlrd_cell_value lib xs row col)
                                  (py_range (c - 1) (ncols xs)))
           (py_range (r - 1) (nrows xs))"
  by (simp add: read_def read_xlrd_def one_based_def)

lemma read_openpyxl_default:
  "openpyxl_corner lib first_cell = Inr (r, c) \<Longrightarrow>
     read_openpyxl lib os first_cell None = iter_rows os r c (max_row os) (max_column os)"
  by (simp add: read_openpyxl_def openpyxl_corner_def)

text \<open>
  Claim C7. With \<open>last_cell\<close> omitted, \<open>read\<close> behaves as with the corner
  \<open>(nrows, ncols)\<close> for an xlrd sheet and \<open>(max_row, max_column)\<close> for an openpyxl sheet.
  For an xlrd sheet it is the loop over the rows \<open>r - 1\<close> up to \<open>nrows - 1\<close> and the columns
  \<open>c - 1\<close> up to \<open>ncols - 1\<close>, where \<open>(r, c)\<close> is the first corner: on a sheet whose cells can
  be read and converted it returns \<open>nrows - r + 1\<close> rows of \<open>ncols - c + 1\<close> values, entry
  \<open>[i][j]\<close> being the value of the cell at \<open>(r - 1 + i, c - 1 + j)\<close>. For an openpyxl sheet it
  returns the rows that \<open>iter_rows\<close> gives from the first corner to
  \<open>(max_row, max_column)\<close>. For a pyxlsb sheet it returns all rows from the first row on, and
  all cells of each of them from the first column on.
\<close>

theorem read_default_last_cell:
  "(read lib (XlrdSheet xs) first_cell None
      = read lib (XlrdSheet xs) first_cell (Some (RC (nrows xs) (ncols xs)))
    \<and> read lib (OpenpyxlWorksheet os) first_cell None
      = read lib (OpenpyxlWorksheet os) first_cell (Some (RC (max_row os) (max_column os)))
    \<and> read lib (OpenpyxlReadOnlyWorksheet os) first_cell None
      = read lib (OpenpyxlReadOnlyWorksheet os) first_cell (Some (RC (max_row os) (max_column os))))
   \<and> (\<forall>r c. one_based first_cell = Inr (r, c) \<longrightarrow>
         read lib (XlrdSheet xs) first_cell None
           = mapM_err (\<lambda>row. mapM_err (\<lambda>col. xlrd_cell_value lib xs row col)
                                      (py_range (c - 1) (ncols xs)))
               (py_range (r - 1) (nrows xs)))
   \<and> (\<forall>r c. one_based first_cell = Inr (r, c)
         \<and> 1 \<le> r \<and> r \<le> nrows xs \<and> 1 \<le> c \<and> c \<le> ncols xs
         \<and> (\<forall>r' c'. 0 \<le> r' \<and> r' < nrows xs \<and> 0 \<le> c' \<and> c' < ncols xs \<longrightarrow>
                (\<exists>v. xlrd_cell_value lib xs r' c' = Inr v)) \<longrightarrow>
         (\<exists>vs. read lib (XlrdSheet xs) first_cell None = Inr vs
            \<and> length vs = nat (nrows xs - r + 1)
            \<and> (\<forall>i < nat (nrows xs - r + 1).
                  length (vs ! i) = nat (ncols xs - c + 1)
                  \<and> (\<forall>j < nat (ncols xs - c + 1).
                        xlrd_cell_value lib xs (r - 1 + int i) (c - 1 + int j)
                          = Inr (vs ! i ! j)))))
   \<and> (\<forall>r c. openpyxl_corner lib first_cell = Inr (r, c) \<longrightarrow>
         read lib (OpenpyxlWorksheet os) first_cell None
           = iter_rows os r c (max_row os) (max_column os)
         \<and> read lib (OpenpyxlReadOnlyWorksheet os) first_cell None
           = iter_rows os r c (max_row os) (max_column os))
   \<and> (\<forall>r c. one_based first_cell = Inr (r, c) \<and> 1 \<le> r \<and> 1 \<le> c \<longrightarrow>
         read lib (PyxlsbWorksheet ps) first_cell None
           = Inr (map (\<lambda>row. map (\<lambda>cell. errors_get (cell_v cell)) (drop (nat (c - 1)) row))
                   (drop (nat (r - 1)) (rows ps))))"
proof (intro conjI allI impI)
  show "read lib (XlrdSheet xs) first_cell None
      = read lib (XlrdSheet xs) first_cell (Some (RC (nrows xs) (ncols xs)))"
    by (simp add: read_def read_xlrd_def)
  show "read lib (OpenpyxlWorksheet os) first_cell None
      = read lib (OpenpyxlWorksheet os) first_cell (Some (RC (max_row os) (max_column os)))"
    by (simp add: read_def read_openpyxl_def)
  show "read lib (OpenpyxlReadOnlyWorksheet os) first_cell None
      = read lib (OpenpyxlReadOnlyWorksheet os) first_cell (Some (RC (max_row os) (max_column os)))"
    by (simp add: read_def read_openpyxl_def)
next
  fix r c assume "one_based first_cell = Inr (r, c)"
  then show "read lib (XlrdSheet xs) first_cell None
           = mapM_err (\<lambda>row. mapM_err (\<lambda>col. xlrd_cell_value lib xs row col)
                                      (py_range (c - 1) (ncols xs)))
               (py_range (r - 1) (nrows xs))"
    by (rule read_xlrd_default)
next
  fix r c
  assume a: "one_based first_cell = Inr (r, c)
         \<and> 1 \<le> r \<and> r \<le> nrows xs \<and> 1 \<le> c \<and> c \<le> ncols xs
         \<and> (\<forall>r' c'. 0 \<le> r' \<and> r' < nrows xs \<and> 0 \<le> c' \<and> c' < ncols xs \<longrightarrow>
                (\<exists>v. xlrd_cell_value lib xs r' c' = Inr v))"
  then have f: "one_based first_cell = Inr (r, c)"
    and b: "1 \<le> r" "r \<le> nrows xs" "nrows xs \<le> nrows xs" "1 \<le> c" "c \<le> ncols xs"
      "ncols xs \<le> ncols xs"
    and cells: "\<forall>r' c'. 0 \<le> r' \<and> r' < nrows xs \<and> 0 \<le> c' \<and> c' < ncols xs \<longrightarrow>
                (\<exists>v. xlrd_cell_value lib xs r' c' = Inr v)"
    by simp_all
  from xlrd_loop_rectangle[OF b cells]
  show "\<exists>vs. read lib (XlrdSheet xs) first_cell None = Inr vs
            \<and> length vs = nat (nrows xs - r + 1)
            \<and> (\<forall>i < nat (nrows xs - r + 1).
                  length (vs ! i) = nat (ncols xs - c + 1)
                  \<and> (\<forall>j < nat (ncols xs - c + 1).
                        xlrd_cell_value lib xs (r - 1 + int i) (c - 1 + int j)
                          = Inr (vs ! i ! j)))"
    by (simp only: read_xlrd_default[OF f])
next
  fix r c assume a: "openpyxl_corner lib first_cell = Inr (r, c)"
  show "read lib (OpenpyxlWorksheet os) first_cell None
           = iter_rows os r c (max_row os) (max_column os)"
    by (simp add: read_def read_openpyxl_default[OF a])
  show "read lib (OpenpyxlReadOnlyWorksheet os) first_cell None
           = iter_rows os r c (max_row os) (max_column os)"
    by (simp add: read_def read_openpyxl_default[OF a])
next
  fix r c assume a: "one_based first_cell = Inr (r, c) \<and> 1 \<le> r \<and> 1 \<le> c"
  then show "read lib (PyxlsbWorksheet ps) first_cell None
           = Inr (map (\<lambda>row. map (\<lambda>cell. errors_get (cell_v cell)) (drop (nat (c - 1)) row))
                   (drop (nat (r - 1)) (rows ps)))"
    by (simp add: read_def read_pyxlsb_def pyxlsb_last_def islice_None py_slice_None drop_map)
qed

theorem read_default_last_cell_witness:
  "(one_based (A1 ''A1'') = Inr (1, 1) \<and> (1::int) \<le> 1
      \<and> 1 \<le> nrows test_xlrd_sheet \<and> 1 \<le> ncols test_xlrd_sheet
      \<and> openpyxl_corner test_libs (A1 ''A1'') = Inr (1, 1))
   \<and> read test_libs (XlrdSheet test_xlrd_sheet) (A1 ''A1'') None
       = Inr [[VBool True, VNone], [VFloat 2, VStr ''#DIV/0!'']]
   \<and> (\<exists>vs. read test_libs (XlrdSheet test_xlrd_sheet) (A1 ''A1'') None = Inr vs
         \<and> length vs = 2 \<and> length (vs ! 1) = 2
         \<and> xlrd_cell_value test_libs test_xlrd_sheet 1 1 = Inr (vs ! 1 ! 1))
   \<and> read test_libs (OpenpyxlWorksheet test_openpyxl_sheet) (A1 ''A1'') None
       = Inr [[VStr ''x'', VInt 3]]
   \<and> read test_libs (OpenpyxlReadOnlyWorksheet test_openpyxl_sheet) (A1 ''A1'') None
       = Inr [[VStr ''x'', VInt 3]]
   \<and> read test_libs (PyxlsbWorksheet test_pyxlsb_sheet) (A1 ''A1'') None
       = Inr [[VStr ''a'', VFloat 1], [VStr ''#DIV/0!'', VNone]]"
proof -
  note t = read_default_last_cell[of test_libs test_xlrd_sheet "A1 ''A1''" test_openpyxl_sheet
      test_pyxlsb_sheet]
  have a: "one_based (A1 ''A1'') = Inr (1, 1)" by (rule one_based_A1)
  have o: "openpyxl_corner test_libs (A1 ''A1'') = Inr (1, 1)"
    by (simp add: openpyxl_corner_def test_libs_def one_based_A1)
  have n: "(1::int) \<le> 1" "1 \<le> nrows test_xlrd_sheet" "1 \<le> ncols test_xlrd_sheet"
    by (simp_all add: test_xlrd_sheet_def)
  from t a have "read test_libs (XlrdSheet test_xlrd_sheet) (A1 ''A1'') None
      = mapM_err (\<lambda>row. mapM_err (\<lambda>col. xlrd_cell_value test_libs test_xlrd_sheet row col)
                                 (py_range (1 - 1) (ncols test_xlrd_sheet)))
          (py_range (1 - 1) (nrows test_xlrd_sheet))"
    by blast
  then have x: "read test_libs (XlrdSheet test_xlrd_sheet) (A1 ''A1'') None
       = Inr [[VBool True, VNone], [VFloat 2, VStr ''#DIV/0!'']]"
    by (simp add: test_xlrd_sheet_def py_range_def upto_rec1 xlrd_cell_value_def test_grid_def
        test_libs_def)
  from t a n test_sheet_cells
  have "\<exists>vs. read test_libs (XlrdSheet test_xlrd_sheet) (A1 ''A1'') None = Inr vs
            \<and> length vs = nat (nrows test_xlrd_sheet - 1 + 1)
            \<and> (\<forall>i < nat (nrows test_xlrd_sheet - 1 + 1).
                  length (vs ! i) = nat (ncols test_xlrd_sheet - 1 + 1)
                  \<and> (\<forall>j < nat (ncols test_xlrd_sheet - 1 + 1).
                        xlrd_cell_value test_libs test_xlrd_sheet (1 - 1 + int i) (1 - 1 + int j)
                          = Inr (vs ! i ! j)))"
    by blast
  then obtain vs where vs: "read test_libs (XlrdSheet test_xlrd_sheet) (A1 ''A1'') None = Inr vs"
    "length vs = 2"
    and ext: "\<forall>i < (2::nat). length (vs ! i) = 2
                  \<and> (\<forall>j < (2::nat). xlrd_cell_value test_libs test_xlrd_sheet (int i) (int j)
                          = Inr (vs ! i ! j))"
    by (auto simp: test_xlrd_sheet_def)
  from ext have e1: "length (vs ! 1) = 2
      \<and> (\<forall>j < (2::nat). xlrd_cell_value test_libs test_xlrd_sheet (int 1) (int j) = Inr (vs ! 1 ! j))"
    by (rule allE[where x = 1]) simp
  then have "xlrd_cell_value test_libs test_xlrd_sheet (int 1) (int 1) = Inr (vs ! 1 ! 1)"
    by (elim conjE allE[where x = 1]) simp
  with vs e1 have y: "\<exists>vs. read test_libs (XlrdSheet test_xlrd_sheet) (A1 ''A1'') None = Inr vs
         \<and> length vs = 2 \<and> length (vs ! 1) = 2
         \<and> xlrd_cell_value test_libs test_xlrd_sheet 1 1 = Inr (vs ! 1 ! 1)"
    by auto
  from t o have "read test_libs (OpenpyxlWorksheet test_openpyxl_sheet) (A1 ''A1'') None
           = iter_rows test_openpyxl_sheet 1 1 (max_row test_openpyxl_sheet)
               (max_column test_openpyxl_sheet)
         \<and> read test_libs (OpenpyxlReadOnlyWorksheet test_openpyxl_sheet) (A1 ''A1'') None
           = iter_rows test_openpyxl_sheet 1 1 (max_row test_openpyxl_sheet)
               (max_column test_openpyxl_sheet)"
    by blast
  then have p: "read test_libs (OpenpyxlWorksheet test_openpyxl_sheet) (A1 ''A1'') None
       = Inr [[VStr ''x'', VInt 3]]"
    "read test_libs (OpenpyxlReadOnlyWorksheet test_openpyxl_sheet) (A1 ''A1'') None
       = Inr [[VStr ''x'', VInt 3]]"
    by (simp_all add: test_openpyxl_sheet_def)
  from t a n have "read test_libs (PyxlsbWorksheet test_pyxlsb_sheet) (A1 ''A1'') None
           = Inr (map (\<lambda>row. map (\<lambda>cell. errors_get (cell_v cell)) (drop (nat (1 - 1)) row))
                   (drop (nat (1 - 1)) (rows test_pyxlsb_sheet)))"
    by blast
  then have z: "read test_libs (PyxlsbWorksheet test_pyxlsb_sheet) (A1 ''A1'') None
       = Inr [[VStr ''a'', VFloat 1], [VStr ''#DIV/0!'', VNone]]"
    by (simp add: test_pyxlsb_sheet_def errors_get_def errors_def)
  from a n o x y p z show ?thesis by blast
qed

text \<open>
  Claim C4. With both corners given as A1 strings, \<open>read\<close> returns what it returns for
  the corresponding tuples: \<open>xl_cell_to_rowcol\<close> of the string plus \<open>(1, 1)\<close> for an xlrd
  or pyxlsb sheet, and the result of \<open>coordinate_to_tuple\<close> for an openpyxl sheet.
\<close>

theorem read_a1_as_tuples:
  assumes "xl_cell_to_rowcol a = Inr (ra, ca)" "xl_cell_to_rowcol b = Inr (rb, cb)"
      and "b \<noteq> []"
      and "coordinate_to_tuple lib a = Inr (ta_r, ta_c)" "coordinate_to_tuple lib b = Inr (tb_r, tb_c)"
  shows "read lib (XlrdSheet xs) (A1 a) (Some (A1 b))
           = read lib (XlrdSheet xs) (RC (ra + 1) (ca + 1)) (Some (RC (rb + 1) (cb + 1)))
       \<and> read lib (PyxlsbWorksheet ps) (A1 a) (Some (A1 b))
           = read lib (PyxlsbWorksheet ps) (RC (ra + 1) (ca + 1)) (Some (RC (rb + 1) (cb + 1)))
       \<and> read lib (OpenpyxlWorksheet os) (A1 a) (Some (A1 b))
           = read lib (OpenpyxlWorksheet os) (RC ta_r ta_c) (Some (RC tb_r tb_c))
       \<and> read lib (OpenpyxlReadOnlyWorksheet os) (A1 a) (Some (A1 b))
           = read lib (OpenpyxlReadOnlyWorksheet os) (RC ta_r ta_c) (Some (RC tb_r tb_c))"
  using assms
  by (simp add: read_def read_xlrd_def read_pyxlsb_def read_openpyxl_def one_based_def
      pyxlsb_last_def openpyxl_corner_def)

lemma xl_cell_to_rowcol_B2: "xl_cell_to_rowcol ''B2'' = Inr (1, 1)"
proof -
  have "re_match ''B2'' = Some (''B'', ''2'')"
    using re_match_a1[of "''B''" "''2''" False False]
    by (simp add: dollar_def is_upper_def is_digit_def)
  then show ?thesis
    by (simp add: xl_cell_to_rowcol_def int_of_digits_def digit_val_def)
qed

lemma xl_cell_to_rowcol_A1: "xl_cell_to_rowcol ''A1'' = Inr (0, 0)"
  by (simp add: xl_cell_to_rowcol_def re_match_A1 int_of_digits_def digit_val_def)

theorem read_a1_as_tuples_witness:
  "(xl_cell_to_rowcol ''A1'' = Inr (0, 0) \<and> xl_cell_to_rowcol ''B2'' = Inr (1, 1)
      \<and> ''B2'' \<noteq> []
      \<and> coordinate_to_tuple test_libs ''A1'' = Inr (1, 1)
      \<and> coordinate_to_tuple test_libs ''B2'' = Inr (2, 2))
   \<and> read test_libs (XlrdSheet test_xlrd_sheet) (A1 ''A1'') (Some (A1 ''B2''))
       = read test_libs (XlrdSheet test_xlrd_sheet) (RC 1 1) (Some (RC 2 2))
   \<and> read test_libs (PyxlsbWorksheet test_pyxlsb_sheet) (A1 ''A1'') (Some (A1 ''B2''))
       = read test_libs (PyxlsbWorksheet test_pyxlsb_sheet) (RC 1 1) (Some (RC 2 2))
   \<and> read test_libs (OpenpyxlWorksheet test_openpyxl_sheet) (A1 ''A1'') (Some (A1 ''B2''))
       = read test_libs (OpenpyxlWorksheet test_openpyxl_sheet) (RC 1 1) (Some (RC 2 2))
   \<and> read test_libs (XlrdSheet test_xlrd_sheet) (RC 1 1) (Some (RC 2 2))
       = Inr [[VBool True, VNone], [VFloat 2, VStr ''#DIV/0!'']]"
proof -
  have h: "xl_cell_to_rowcol ''A1'' = Inr (0, 0)" "xl_cell_to_rowcol ''B2'' = Inr (1, 1)"
    "''B2'' \<noteq> []"
    "coordinate_to_tuple test_libs ''A1'' = Inr (1, 1)"
    "coordinate_to_tuple test_libs ''B2'' = Inr (2, 2)"
    by (simp_all add: xl_cell_to_rowcol_A1 xl_cell_to_rowcol_B2 test_libs_def one_based_def)
  have v: "read test_libs (XlrdSheet test_xlrd_sheet) (RC 1 1) (Some (RC 2 2))
       = Inr [[VBool True, VNone], [VFloat 2, VStr ''#DIV/0!'']]"
    by (simp add: read_def read_xlrd_def test_xlrd_sheet_def one_based_def py_range_def
        xlrd_cell_value_def test_grid_def test_libs_def upto_rec1)
  from read_a1_as_tuples[OF h, of test_xlrd_sheet test_pyxlsb_sheet test_openpyxl_sheet] h v
  show ?thesis by simp
qed

section \<open>The type of the sheet\<close>

lemma run_calls_TypeError:
  "\<forall>call. raises call \<noteq> Some TypeError \<Longrightarrow> snd (run_calls raises calls) \<noteq> Some TypeError"
  by (induction calls) (auto split: option.splits prod.splits)

lemma mapM_err_no_TypeError:
  "\<forall>x. f x \<noteq> Inl TypeError \<Longrightarrow> mapM_err f xs \<noteq> Inl TypeError"
  by (induction xs) (auto split: sum.splits)

lemma xl_cell_to_rowcol_no_TypeError: "xl_cell_to_rowcol s \<noteq> Inl TypeError"
  by (auto simp: xl_cell_to_rowcol_def Let_def split: option.splits)

lemma one_based_no_TypeError: "one_based ref \<noteq> Inl TypeError"
  using xl_cell_to_rowcol_no_TypeError
  by (auto simp: one_based_def split: cell_ref.splits sum.splits)

lemma zero_based_no_TypeError: "zero_based ref \<noteq> Inl TypeError"
  using xl_cell_to_rowcol_no_TypeError
  by (auto simp: zero_based_def split: cell_ref.splits)

lemma openpyxl_corner_no_TypeError:
  "no_library_TypeError lib \<Longrightarrow> openpyxl_corner lib ref \<noteq> Inl TypeError"
  by (auto simp: openpyxl_corner_def no_library_TypeError_def split: cell_ref.splits)

lemma xlrd_cell_value_no_TypeError:
  assumes "no_library_TypeError lib" "\<forall>r c. cell sh r c \<noteq> Inl TypeError"
  shows "xlrd_cell_value lib sh r c \<noteq> Inl TypeError"
  using assms
  by (auto simp: xlrd_cell_value_def no_library_TypeError_def split: sum.splits option.splits)

lemma read_xlrd_no_TypeError:
  assumes "no_library_TypeError lib" "\<forall>r c. cell sh r c \<noteq> Inl TypeError"
  shows "read_xlrd lib sh first_cell last_cell \<noteq> Inl TypeError"
proof -
  have "mapM_err (\<lambda>r. mapM_err (\<lambda>c. xlrd_cell_value lib sh r c) cs) rs \<noteq> Inl TypeError" for rs cs
    by (intro mapM_err_no_TypeError allI xlrd_cell_value_no_TypeError[OF assms])
  then show ?thesis
    using one_based_no_TypeError
    by (auto simp: read_xlrd_def Let_def split: sum.splits)
qed

lemma read_openpyxl_no_TypeError:
  assumes "no_library_TypeError lib" "\<forall>r1 c1 r2 c2. iter_rows sh r1 c1 r2 c2 \<noteq> Inl TypeError"
  shows "read_openpyxl lib sh first_cell last_cell \<noteq> Inl TypeError"
  using assms openpyxl_corner_no_TypeError[OF assms(1)]
  by (auto simp: read_openpyxl_def Let_def split: sum.splits)

lemma read_pyxlsb_no_TypeError: "read_pyxlsb sh first_cell last_cell \<noteq> Inl TypeError"
proof -
  have "pyxlsb_last last_cell \<noteq> Inl TypeError"
    using one_based_no_TypeError
    by (auto simp: pyxlsb_last_def split: option.splits cell_ref.splits sum.splits)
  moreover have "islice xs a b \<noteq> Inl TypeError" for xs :: "pyxlsb_cell list list" and a b
    by (simp add: islice_def)
  ultimately show ?thesis
    using one_based_no_TypeError
    by (auto simp: read_pyxlsb_def split: sum.splits)
qed

lemma read_TypeError_iff:
  assumes "no_library_TypeError lib" "sheet_no_TypeError sheet"
  shows "read lib sheet first_cell last_cell = Inl TypeError \<longleftrightarrow> \<not> read_accepts sheet"
  using assms read_xlrd_no_TypeError[OF assms(1)] read_openpyxl_no_TypeError[OF assms(1)]
    read_pyxlsb_no_TypeError
  by (cases sheet) (auto simp: read_def)

lemma write_TypeError_iff:
  assumes "no_library_TypeError lib"
  shows "snd (write_sheet lib sheet values first_cell date_format) = Some TypeError
           \<longleftrightarrow> \<not> write_accepts sheet"
proof -
  from assms have r: "snd (run_calls (call_raises lib) calls) \<noteq> Some TypeError" for calls
    by (intro run_calls_TypeError) (simp add: no_library_TypeError_def)
  from assms have e: "easyxf lib s \<noteq> Inl TypeError" for s
    by (simp add: no_library_TypeError_def)
  show ?thesis
    using r e openpyxl_corner_no_TypeError[OF assms] zero_based_no_TypeError
    by (cases sheet) (auto simp: write_sheet_def Let_def split: sum.splits)
qed

lemma write_rejected_no_calls:
  "\<not> write_accepts sheet \<Longrightarrow> write_sheet lib sheet values first_cell date_format = ([], Some TypeError)"
  by (cases sheet) (auto simp: write_sheet_def)


lemma test_libs_no_TypeError: "no_library_TypeError test_libs"
  using one_based_no_TypeError
  by (auto simp: no_library_TypeError_def test_libs_def split: pyval.splits)

text \<open>
  Claim C5, as amended. Where the library calls raise no TypeError of their own, \<open>read\<close>
  raises a TypeError exactly for an object that is no xlrd sheet, openpyxl \<open>Worksheet\<close>
  or \<open>ReadOnlyWorksheet\<close> or pyxlsb worksheet; \<open>write\<close> raises a TypeError exactly
  for an object that is no openpyxl \<open>Worksheet\<close>, xlsxwriter worksheet or xlwt worksheet,
  and has then made no call on the sheet.
\<close>

theorem read_write_TypeError:
  assumes "no_library_TypeError lib" "sheet_no_TypeError sheet"
  shows "(read lib sheet first_cell last_cell = Inl TypeError \<longleftrightarrow> \<not> read_accepts sheet)
       \<and> (snd (write_sheet lib sheet values first_cell date_format) = Some TypeError
            \<longleftrightarrow> \<not> write_accepts sheet)
       \<and> (snd (write_sheet lib sheet values first_cell date_format) = Some TypeError
            \<longrightarrow> fst (write_sheet lib sheet values first_cell date_format) = [])"
proof (intro conjI impI)
  show "read lib sheet first_cell last_cell = Inl TypeError \<longleftrightarrow> \<not> read_accepts sheet"
    by (rule read_TypeError_iff[OF assms])
  show w: "snd (write_sheet lib sheet values first_cell date_format) = Some TypeError
            \<longleftrightarrow> \<not> write_accepts sheet"
    by (rule write_TypeError_iff[OF assms(1)])
  assume "snd (write_sheet lib sheet values first_cell date_format) = Some TypeError"
  with w have "\<not> write_accepts sheet" by simp
  then show "fst (write_sheet lib sheet values first_cell date_format) = []"
    by (simp add: write_rejected_no_calls)
qed

theorem read_write_TypeError_witness:
  "(no_library_TypeError test_libs \<and> sheet_no_TypeError (OtherObject ''dict''))
   \<and> read test_libs (OtherObject ''dict'') (A1 ''A1'') None = Inl TypeError
   \<and> snd (write_sheet test_libs (OtherObject ''dict'') [[VInt 1]] (A1 ''A1'') None) = Some TypeError
   \<and> fst (write_sheet test_libs (OtherObject ''dict'') [[VInt 1]] (A1 ''A1'') None) = []
   \<and> snd (write_sheet test_libs XlsxwriterWorksheet [[VInt 1]] (A1 ''A1'') None) \<noteq> Some TypeError"
proof -
  have h: "no_library_TypeError test_libs" "sheet_no_TypeError (OtherObject ''dict'')"
    "sheet_no_TypeError XlsxwriterWorksheet"
    by (simp_all add: test_libs_no_TypeError)
  from read_write_TypeError[OF h(1) h(2), of "A1 ''A1''" None "[[VInt 1]]" None]
       read_write_TypeError[OF h(1) h(3), of "A1 ''A1''" None "[[VInt 1]]" None]
  show ?thesis using h by simp
qed

text \<open>
  Claim C5 as stated fails for a worksheet of an openpyxl workbook opened with
  \<open>write_only=True\<close>: it is an openpyxl worksheet, and \<open>write\<close> raises a TypeError.
\<close>

theorem write_sheet_openpyxl_write_only:
  "no_library_TypeError test_libs
   \<and> \<not> (snd (write_sheet test_libs OpenpyxlWriteOnlyWorksheet [[VInt 1]] (A1 ''A1'') None)
             = Some TypeError
          \<longleftrightarrow> \<not> openpyxl_xlsxwriter_or_xlwt OpenpyxlWriteOnlyWorksheet)"
  by (simp add: test_libs_no_TypeError write_sheet_def openpyxl_xlsxwriter_or_xlwt_def)

section \<open>store_package\<close>

text \<open>
  Claim C8. \<open>store_package\<close> lets no exception of the engine through: it returns \<open>None\<close>
  when the insert succeeds; when the name is in the table it returns the name followed by
  \<open>" already exists"\<close> and leaves the database as it was; any other failure is returned
  as the string \<open>repr(e)\<close>, the database again as it was.
\<close>

theorem store_package_returns:
  "(\<exists>db' r. store_package repr db package_name = (db', Inr r))
   \<and> (\<forall>db'. execute_insert db package_name = Inr db' \<longrightarrow>
         store_package repr db package_name = (db', Inr None))
   \<and> (\<forall>table. connect_failure db = None \<and> packages db = Some table
         \<and> package_name \<in> set (map snd table) \<longrightarrow>
         store_package repr db package_name
           = (db, Inr (Some (package_name @ '' already exists''))))
   \<and> (\<forall>e. execute_insert db package_name = Inl e \<and> \<not> is_IntegrityError e \<longrightarrow>
         store_package repr db package_name = (db, Inr (Some (repr e))))"
proof (intro conjI allI impI)
  show "\<exists>db' r. store_package repr db package_name = (db', Inr r)"
    by (cases "execute_insert db package_name") (simp_all add: store_package_def)
next
  fix db' assume "execute_insert db package_name = Inr db'"
  then show "store_package repr db package_name = (db', Inr None)"
    by (simp add: store_package_def)
next
  fix table
  assume "connect_failure db = None \<and> packages db = Some table
         \<and> package_name \<in> set (map snd table)"
  then have "execute_insert db package_name
      = Inl (IntegrityError ''UNIQUE constraint failed: packages.package_name'')"
    by (simp add: execute_insert_def)
  then show "store_package repr db package_name
           = (db, Inr (Some (package_name @ '' already exists'')))"
    by (simp add: store_package_def)
next
  fix e assume "execute_insert db package_name = Inl e \<and> \<not> is_IntegrityError e"
  then show "store_package repr db package_name = (db, Inr (Some (repr e)))"
    by (simp add: store_package_def)
qed

theorem store_package_returns_witness:
  "(connect_failure test_db = None \<and> packages test_db = Some [(1, ''xlwings'')]
      \<and> ''xlwings'' \<in> set (map snd [(1::int, ''xlwings'')]))
   \<and> store_package test_repr test_db ''xlwings'' = (test_db, Inr (Some ''xlwings already exists''))
   \<and> execute_insert test_db ''pandas''
        = Inr (test_db\<lparr>packages := Some [(1, ''xlwings''), (2, ''pandas'')]\<rparr>)
   \<and> store_package test_repr test_db ''pandas''
        = (test_db\<lparr>packages := Some [(1, ''xlwings''), (2, ''pandas'')]\<rparr>, Inr None)
   \<and> (execute_insert (test_db\<lparr>packages := None\<rparr>) ''pandas''
         = Inl (OperationalError ''no such table: packages'')
       \<and> \<not> is_IntegrityError (OperationalError ''no such table: packages''))
   \<and> store_package test_repr (test_db\<lparr>packages := None\<rparr>) ''pandas''
        = (test_db\<lparr>packages := None\<rparr>, Inr (Some ''OperationalError(no such table: packages)''))"
proof -
  have a: "connect_failure test_db = None \<and> packages test_db = Some [(1, ''xlwings'')]
      \<and> ''xlwings'' \<in> set (map snd [(1::int, ''xlwings'')])"
    by (simp add: test_db_def)
  have b: "execute_insert test_db ''pandas''
        = Inr (test_db\<lparr>packages := Some [(1, ''xlwings''), (2, ''pandas'')]\<rparr>)"
    by (simp add: execute_insert_def test_db_def next_package_id_def)
  have c: "execute_insert (test_db\<lparr>packages := None\<rparr>) ''pandas''
         = Inl (OperationalError ''no such table: packages'')
       \<and> \<not> is_IntegrityError (OperationalError ''no such table: packages'')"
    by (simp add: execute_insert_def test_db_def)
  from store_package_returns[of test_repr test_db "''xlwings''"] a
  have a': "store_package test_repr test_db ''xlwings''
      = (test_db, Inr (Some (''xlwings'' @ '' already exists'')))"
    by blast
  from store_package_returns[of test_repr test_db "''pandas''"] b
  have b': "store_package test_repr test_db ''pandas''
        = (test_db\<lparr>packages := Some [(1, ''xlwings''), (2, ''pandas'')]\<rparr>, Inr None)"
    by blast
  from store_package_returns[of test_repr "test_db\<lparr>packages := None\<rparr>" "''pandas''"] c
  have c': "store_package test_repr (test_db\<lparr>packages := None\<rparr>) ''pandas''
        = (test_db\<lparr>packages := None\<rparr>,
           Inr (Some (test_repr (OperationalError ''no such table: packages''))))"
    by blast
  from a a' b b' c c' show ?thesis by (simp add: test_repr_def)
qed

section \<open>load_workbook\<close>

lemma raised_Nil_iff:
  "raised (map g xs) = [] \<longleftrightarrow> (\<exists>ys. mapM_err g xs = Inr ys)"
  by (induction xs) (auto simp: raised_def split: sum.splits)

lemma returned_mapM_err:
  "mapM_err g xs = Inr ys \<Longrightarrow> returned (map g xs) = ys"
  by (induction xs arbitrary: ys) (auto simp: returned_def split: sum.splits)

lemma starmap_Inr_iff:
  "starmap pick f args = Inr ys \<longleftrightarrow> mapM_err (\<lambda>(a, b). f a b) args = Inr ys"
proof (cases "mapM_err (\<lambda>(a, b). f a b) args")
  case (Inl e)
  then have "raised (map (\<lambda>(a, b). f a b) args) \<noteq> []"
    by (simp add: raised_Nil_iff)
  with Inl show ?thesis by (simp add: starmap_def)
next
  case (Inr zs)
  then have "raised (map (\<lambda>(a, b). f a b) args) = []"
    using raised_Nil_iff[of "\<lambda>(a, b). f a b" args] by simp
  with Inr returned_mapM_err[OF Inr] show ?thesis by (simp add: starmap_def)
qed

lemma starmap_Inl:
  assumes "starmap pick f args = Inl e" "\<forall>es. es \<noteq> [] \<longrightarrow> pick es \<in> set es"
  shows "\<exists>(a, b) \<in> set args. f a b = Inl e"
proof -
  let ?rs = "map (\<lambda>(a, b). f a b) args"
  from assms(1) have ne: "raised ?rs \<noteq> []" and e: "e = pick (raised ?rs)"
    by (auto simp: starmap_def Let_def split: if_splits)
  with assms(2) have "e \<in> set (raised ?rs)" by blast
  then have "Inl e \<in> set ?rs"
    by (auto simp: raised_def split: sum.splits)
  then obtain a b where "(a, b) \<in> set args" "f a b = Inl e"
    by (auto simp: image_iff)
  then show ?thesis by blast
qed

lemma loop_gen:
  "(case mapM_err (\<lambda>(a, b). read_sheet lib open_book a b) (map (Pair filename) names) of
      Inl e \<Rightarrow> Inl e
    | Inr data \<Rightarrow> Inr (foldl (\<lambda>d (k, v). d(k \<mapsto> v)) d0 data))
   = sequential_load lib open_book filename names d0"
proof (induction names arbitrary: d0)
  case Nil
  show ?case by simp
next
  case (Cons n names)
  show ?case
  proof (cases "read_sheet lib open_book filename n")
    case (Inl e)
    then show ?thesis by simp
  next
    case (Inr td)
    obtain title data where td: "td = (title, data)" by (cases td)
    have "sequential_load lib open_book filename (n # names) d0
        = sequential_load lib open_book filename names (d0(title \<mapsto> data))"
      by (simp add: Inr td)
    also have "\<dots> = (case mapM_err (\<lambda>(a, b). read_sheet lib open_book a b)
                           (map (Pair filename) names) of
        Inl e \<Rightarrow> Inl e
      | Inr rest \<Rightarrow> Inr (foldl (\<lambda>d (k, v). d(k \<mapsto> v)) (d0(title \<mapsto> data)) rest))"
      by (simp only: Cons.IH)
    also have "\<dots> = (case mapM_err (\<lambda>(a, b). read_sheet lib open_book a b)
                           (map (Pair filename) (n # names)) of
        Inl e \<Rightarrow> Inl e
      | Inr rest \<Rightarrow> Inr (foldl (\<lambda>d (k, v). d(k \<mapsto> v)) d0 rest))"
      by (simp add: Inr td split: sum.splits)
    finally show ?thesis by simp
  qed
qed

lemma zip_replicate_Pair: "zip (replicate (length names) filename) names = map (Pair filename) names"
  by (induction names) simp_all

lemma load_workbook_Inr_iff:
  "load_workbook pick lib open_book filename (Some names) = Inr d
     \<longleftrightarrow> sequential_load lib open_book filename names Map.empty = Inr d"
proof -
  let ?args = "map (Pair filename) names"
  let ?m = "mapM_err (\<lambda>(a, b). read_sheet lib open_book a b) ?args"
  have "load_workbook pick lib open_book filename (Some names) = Inr d
      \<longleftrightarrow> (\<exists>data. starmap pick (read_sheet lib open_book) ?args = Inr data \<and> d = dict_of data)"
    unfolding load_workbook_def by (auto simp: zip_replicate_Pair split: sum.splits)
  also have "\<dots> \<longleftrightarrow> (\<exists>data. ?m = Inr data \<and> d = dict_of data)"
    by (simp add: starmap_Inr_iff)
  also have "\<dots> \<longleftrightarrow> (case ?m of Inl e \<Rightarrow> Inl e
                      | Inr data \<Rightarrow> Inr (foldl (\<lambda>d (k, v). d(k \<mapsto> v)) Map.empty data)) = Inr d"
    unfolding dict_of_def by (auto split: sum.splits)
  also have "\<dots> \<longleftrightarrow> sequential_load lib open_book filename names Map.empty = Inr d"
    by (simp only: loop_gen)
  finally show ?thesis .
qed

lemma load_workbook_raises_iff:
  "(\<exists>e. load_workbook pick lib open_book filename (Some names) = Inl e)
     \<longleftrightarrow> (\<exists>e. sequential_load lib open_book filename names Map.empty = Inl e)"
proof -
  have "(\<exists>e. x = Inl e) \<longleftrightarrow> \<not> (\<exists>d. x = Inr d)" for x :: "pyerr + (string \<rightharpoonup> pyval list list)"
    by (cases x) auto
  then show ?thesis by (simp add: load_workbook_Inr_iff)
qed

lemma read_sheet_title:
  "read_sheet lib open_book filename n = Inr (title, data) \<Longrightarrow>
     title = n \<and> (\<exists>book sh. open_book filename = Inr book \<and> book_getitem book n = Inr (n, sh)
        \<and> read lib sh (A1 ''A1'') None = Inr data)"
  unfolding read_sheet_def book_getitem_def
  by (auto split: sum.splits option.splits simp: find_Some_iff)


lemma sequential_load_entries:
  assumes "sequential_load lib open_book filename names d0 = Inr d"
  shows "(\<forall>n \<in> set names. \<exists>data. read_sheet lib open_book filename n = Inr (n, data)
            \<and> d n = Some data)
       \<and> (\<forall>k. k \<notin> set names \<longrightarrow> d k = d0 k)"
  using assms
proof (induction names arbitrary: d0)
  case Nil
  then show ?case by simp
next
  case (Cons n names)
  from Cons.prems obtain title data where
    rs: "read_sheet lib open_book filename n = Inr (title, data)"
    and rest: "sequential_load lib open_book filename names (d0(title \<mapsto> data)) = Inr d"
    by (auto split: sum.splits)
  from read_sheet_title[OF rs] have t: "title = n" by simp
  from Cons.IH[OF rest]
  have ih1: "\<forall>m \<in> set names. \<exists>data. read_sheet lib open_book filename m = Inr (m, data)
            \<and> d m = Some data"
    and ih2: "\<forall>k. k \<notin> set names \<longrightarrow> d k = (d0(title \<mapsto> data)) k"
    by blast+
  have "\<exists>data. read_sheet lib open_book filename n = Inr (n, data) \<and> d n = Some data"
  proof (cases "n \<in> set names")
    case True
    with ih1 show ?thesis by blast
  next
    case False
    with ih2 t have "d n = Some data" by simp
    with rs t show ?thesis by simp
  qed
  moreover have "\<forall>k. k \<notin> set (n # names) \<longrightarrow> d k = d0 k"
    using ih2 t by simp
  ultimately show ?case using ih1 by simp
qed

text \<open>
  Claim C9. For a list of sheet names \<open>load_workbook\<close> returns a dictionary exactly when
  the sequential loop over the sheets does, and then the same one; it raises exactly when
  the loop raises. The keys of the dictionary are the listed names, and the value under a
  name is what \<open>read\<close> returns for the sheet of that title.
\<close>

theorem load_workbook_sequential:
  "(\<forall>d. load_workbook pick lib open_book filename (Some names) = Inr d
          \<longleftrightarrow> sequential_load lib open_book filename names Map.empty = Inr d)
   \<and> ((\<exists>e. load_workbook pick lib open_book filename (Some names) = Inl e)
          \<longleftrightarrow> (\<exists>e. sequential_load lib open_book filename names Map.empty = Inl e))
   \<and> (\<forall>d. load_workbook pick lib open_book filename (Some names) = Inr d \<longrightarrow>
         dom d = set names
         \<and> (\<forall>n. n \<in> set names \<longrightarrow>
               (\<exists>book sh data. open_book filename = Inr book
                  \<and> book_getitem book n = Inr (n, sh)
                  \<and> read lib sh (A1 ''A1'') None = Inr data
                  \<and> d n = Some data)))"
proof (intro conjI allI impI)
  show "load_workbook pick lib open_book filename (Some names) = Inr d
          \<longleftrightarrow> sequential_load lib open_book filename names Map.empty = Inr d" for d
    by (rule load_workbook_Inr_iff)
  show "(\<exists>e. load_workbook pick lib open_book filename (Some names) = Inl e)
          \<longleftrightarrow> (\<exists>e. sequential_load lib open_book filename names Map.empty = Inl e)"
    by (rule load_workbook_raises_iff)
next
  fix d assume "load_workbook pick lib open_book filename (Some names) = Inr d"
  then have s: "sequential_load lib open_book filename names Map.empty = Inr d"
    by (simp add: load_workbook_Inr_iff)
  from sequential_load_entries[OF s]
  have e: "\<forall>n \<in> set names. \<exists>data. read_sheet lib open_book filename n = Inr (n, data)
            \<and> d n = Some data"
    and o: "\<forall>k. k \<notin> set names \<longrightarrow> d k = None"
    by simp_all
  show "dom d = set names"
  proof
    show "dom d \<subseteq> set names" using o by (auto simp: dom_def)
    show "set names \<subseteq> dom d" using e by (auto simp: dom_def)
  qed
  fix n assume "n \<in> set names"
  with e obtain data where rs: "read_sheet lib open_book filename n = Inr (n, data)"
    and dn: "d n = Some data" by blast
  from read_sheet_title[OF rs] dn
  show "\<exists>book sh data. open_book filename = Inr book
                  \<and> book_getitem book n = Inr (n, sh)
                  \<and> read lib sh (A1 ''A1'') None = Inr data
                  \<and> d n = Some data"
    by blast
qed

lemma test_read_sheet1:
  "read_sheet test_libs test_open_book ''book.xlsx'' ''Sheet1''
     = Inr (''Sheet1'', [[VStr ''x'', VInt 3]])"
  by (simp add: read_sheet_def test_open_book_def book_getitem_def read_def read_openpyxl_def
      openpyxl_corner_def test_libs_def test_openpyxl_sheet_def one_based_A1)

theorem load_workbook_sequential_witness:
  "sequential_load test_libs test_open_book ''book.xlsx'' [''Sheet1'', ''Sheet1''] Map.empty
       = Inr [''Sheet1'' \<mapsto> [[VStr ''x'', VInt 3]]]
   \<and> load_workbook hd test_libs test_open_book ''book.xlsx'' (Some [''Sheet1'', ''Sheet1''])
       = Inr [''Sheet1'' \<mapsto> [[VStr ''x'', VInt 3]]]
   \<and> dom [''Sheet1'' \<mapsto> [[VStr ''x'', VInt 3]]] = set [''Sheet1'', ''Sheet1'']
   \<and> (\<exists>e. sequential_load test_libs test_open_book ''book.xlsx'' [''Sheet1'', ''Chart''] Map.empty
            = Inl e)
   \<and> (\<exists>e. load_workbook hd test_libs test_open_book ''book.xlsx'' (Some [''Sheet1'', ''Chart''])
            = Inl e)"
proof -
  let ?d = "[''Sheet1'' \<mapsto> [[VStr ''x'', VInt 3]]]"
  have s: "sequential_load test_libs test_open_book ''book.xlsx'' [''Sheet1'', ''Sheet1''] Map.empty
      = Inr ?d"
    by (simp add: test_read_sheet1)
  have c: "read_sheet test_libs test_open_book ''book.xlsx'' ''Chart'' = Inl TypeError"
    by (simp add: read_sheet_def test_open_book_def book_getitem_def read_def)
  have f: "\<exists>e. sequential_load test_libs test_open_book ''book.xlsx'' [''Sheet1'', ''Chart''] Map.empty
            = Inl e"
    by (simp add: test_read_sheet1 c)
  note t = load_workbook_sequential[of hd test_libs test_open_book "''book.xlsx''"]
  from t[of "[''Sheet1'', ''Sheet1'']"] s
  have l: "load_workbook hd test_libs test_open_book ''book.xlsx'' (Some [''Sheet1'', ''Sheet1''])
      = Inr ?d"
    by blast
  with t[of "[''Sheet1'', ''Sheet1'']"]
  have k: "dom ?d = set [''Sheet1'', ''Sheet1'']" by blast
  from t[of "[''Sheet1'', ''Chart'']"] f
  have g: "\<exists>e. load_workbook hd test_libs test_open_book ''book.xlsx'' (Some [''Sheet1'', ''Chart''])
            = Inl e"
    by blast
  from s l k f g show ?thesis by blast
qed

end
